theory Spec2Isabelle
  imports Main
begin

section \<open>The NFT marketplace: listing and settlement ledger\<close>

text \<open>
  A shallow embedding of the two Solidity contracts of the repository:
  \<^verbatim>\<open>NFT\<close> (contracts/src/NFT.sol) and \<^verbatim>\<open>NFTMarketplace\<close>
  (contracts/src/Marketplace.sol). Contract storage and the ether balances of all
  accounts form one record, \<open>world\<close>; every external function takes the message
  (transaction originator and immediate caller), its arguments and the world, and returns
  the world after the call together with its outcome: a returned value or the error of
  the revert.

  Conventions.
  \<^item> \<open>uint256\<close> values are natural numbers; the checked arithmetic of Solidity 0.8 is
    written out where a result can leave the range: the operation reverts with
    \<open>Panic\<close>. Loop counters bounded by the length of a storage array cannot overflow.
  \<^item> Addresses are natural numbers, \<open>0\<close> is \<^verbatim>\<open>address(0)\<close>.
  \<^item> A revert undoes every effect of the call. A function body returns the world it
    had reached when it stopped; \<open>transaction\<close> is the boundary of the external call and
    restores the world of before on a revert.
  \<^item> Code that runs in other accounts during a call (the receive function of a payee,
    the \<^verbatim>\<open>onERC721Received\<close> hook of a token receiver) is modelled by its answer:
    it accepts or it rejects. The sale is stated in the amounts that the marketplace computes
    and pays. For the payee of \<open>withdrawFees\<close> the model also runs its code as far as the
    balance of the marketplace can see it: the ether that it sends back.
  \<^item> Gas, events and the \<^verbatim>\<open>setNFTContract\<close> migration function are not modelled: the
    marketplace trades the NFT contract that its constructor deployed. Only \<open>buyNFT\<close> is
    payable; the calls of the other functions carry no ether.
\<close>

subsection \<open>Values, errors, outcomes\<close>

type_synonym address = nat
type_synonym uint256 = nat

definition UINT256_LIMIT :: nat where
  "UINT256_LIMIT = 2 ^ 256"

datatype error =
    PriceMustBeGreaterThanZero
  | NotTokenOwner
  | NotApprovedForMarketplace
  | ListingNotActive
  | CannotBuyOwnNFT
  | IncorrectPaymentAmount
  | FeeExceedsMaximum
  | TransferFailed
  | NotAuthorizedToMint
  | OwnableUnauthorizedAccount
  | ReentrancyGuardReentrantCall
  | Panic
  | InsufficientFunds
  | ERC721_NotFound
  | ERC721_NotOwner
  | ERC721_NotAuthorized
  | ERC721_InvalidReceiver
  | ERC721_AlreadyMinted

datatype 'a outcome = Return 'a | Revert error

record msg =
  origin :: address
  sender :: address

record Listing =
  seller :: address
  price :: uint256
  isActive :: bool

record world =
  balances :: "address \<Rightarrow> nat"
  payable_account :: "address \<Rightarrow> bool"
  nft_receiver :: "address \<Rightarrow> bool"
  sends_back :: "address \<Rightarrow> nat"
  marketplace_address :: address
  nft_address :: address
  tokenIdCounter :: uint256
  owners :: "uint256 \<Rightarrow> address"
  tokenApprovals :: "uint256 \<Rightarrow> address"
  operatorApprovals :: "address \<Rightarrow> address \<Rightarrow> bool"
  tokenURIs :: "uint256 \<Rightarrow> string"
  nft_marketplaceAddress :: address
  nft_owner :: address
  nft_entered :: bool
  mp_owner :: address
  mp_entered :: bool
  marketplaceFee :: uint256
  listings :: "uint256 \<Rightarrow> Listing"
  listedTokenIds :: "uint256 list"
  listedTokenIndex :: "uint256 \<Rightarrow> uint256"
  hasBeenListed :: "uint256 \<Rightarrow> bool"

definition MAX_FEE :: uint256 where
  "MAX_FEE = 1000"

definition FEE_DENOMINATOR :: uint256 where
  "FEE_DENOMINATOR = 10000"

subsection \<open>The call boundary, modifiers and ether transfers\<close>

text \<open>
  An external call that reverts leaves the world as it was before the call; the world the
  body had reached is dropped.
\<close>

definition transaction :: "(world \<Rightarrow> world \<times> 'a outcome) \<Rightarrow> world \<Rightarrow> world \<times> 'a outcome" where
  "transaction body w =
     (case body w of
        (w', Return r) \<Rightarrow> (w', Return r)
      | (w', Revert e) \<Rightarrow> (w, Revert e))"

text \<open>The \<^verbatim>\<open>nonReentrant\<close> modifier of the marketplace and of the NFT contract.\<close>

definition nonReentrant :: "(world \<Rightarrow> world \<times> 'a outcome) \<Rightarrow> world \<Rightarrow> world \<times> 'a outcome" where
  "nonReentrant body w =
     (if mp_entered w then (w, Revert ReentrancyGuardReentrantCall)
      else (case body (w\<lparr>mp_entered := True\<rparr>) of
              (w', Return r) \<Rightarrow> (w'\<lparr>mp_entered := False\<rparr>, Return r)
            | (w', Revert e) \<Rightarrow> (w', Revert e)))"

definition nft_nonReentrant :: "(world \<Rightarrow> world \<times> 'a outcome) \<Rightarrow> world \<Rightarrow> world \<times> 'a outcome" where
  "nft_nonReentrant body w =
     (if nft_entered w then (w, Revert ReentrancyGuardReentrantCall)
      else (case body (w\<lparr>nft_entered := True\<rparr>) of
              (w', Return r) \<Rightarrow> (w'\<lparr>nft_entered := False\<rparr>, Return r)
            | (w', Revert e) \<Rightarrow> (w', Revert e)))"

text \<open>The \<^verbatim>\<open>onlyOwner\<close> modifier of the marketplace.\<close>

definition onlyOwner :: "msg \<Rightarrow> (world \<Rightarrow> world \<times> 'a outcome) \<Rightarrow> world \<Rightarrow> world \<times> 'a outcome" where
  "onlyOwner m body w =
     (if mp_owner w \<noteq> sender m then (w, Revert OwnableUnauthorizedAccount) else body w)"

text \<open>
  Who takes a plain ether transfer: the marketplace has \<^verbatim>\<open>receive() external payable {}\<close>,
  the NFT contract has no receive function, every other account answers for itself.
\<close>

definition can_receive_ether :: "world \<Rightarrow> address \<Rightarrow> bool" where
  "can_receive_ether w a =
     (if a = marketplace_address w then True
      else if a = nft_address w then False
      else payable_account w a)"

definition move_ether :: "address \<Rightarrow> address \<Rightarrow> nat \<Rightarrow> world \<Rightarrow> world" where
  "move_ether src dst amount w =
     (let b1 = (balances w)(src := balances w src - amount);
          b2 = b1(dst := b1 dst + amount)
      in w\<lparr>balances := b2\<rparr>)"

text \<open>
  \<^verbatim>\<open>payable(dst).call{value: amount}("")\<close> made by \<open>src\<close>: \<open>None\<close> is the result
  \<^verbatim>\<open>success = false\<close>.
\<close>

definition call_with_value :: "address \<Rightarrow> address \<Rightarrow> nat \<Rightarrow> world \<Rightarrow> world option" where
  "call_with_value src dst amount w =
     (if balances w src < amount \<or> \<not> can_receive_ether w dst then None
      else Some (move_ether src dst amount w))"

text \<open>
  The same call with the code of the payee run: the call forwards all the gas, and the
  receive function of the payee may send ether back to the payer before it returns. The
  receive function of the marketplace is payable and carries no guard, so ether that
  comes back during \<^verbatim>\<open>withdrawFees\<close> arrives. \<open>sends_back w a\<close> is the amount that the
  code of account \<open>a\<close> sends back when it is paid; the receive function of the marketplace
  itself is empty and sends nothing. A payee whose code sends more than it holds fails, and
  the call returns \<^verbatim>\<open>success = false\<close>.
\<close>

definition call_with_value_and_code :: "address \<Rightarrow> address \<Rightarrow> nat \<Rightarrow> world \<Rightarrow> world option" where
  "call_with_value_and_code src dst amount w =
     (case call_with_value src dst amount w of
        None \<Rightarrow> None
      | Some w1 \<Rightarrow>
          (let back = (if dst = marketplace_address w1 then 0 else sends_back w1 dst) in
           if balances w1 dst < back \<or> \<not> can_receive_ether w1 src then None
           else Some (move_ether dst src back w1)))"

text \<open>
  A call to a payable function of the marketplace with \<open>msg_value\<close> attached: the value
  moves from the caller to the marketplace before the body runs, and moves back with
  everything else when the body reverts. A caller that does not hold the value cannot make
  the call.
\<close>

definition payable_transaction ::
  "msg \<Rightarrow> nat \<Rightarrow> (world \<Rightarrow> world \<times> 'a outcome) \<Rightarrow> world \<Rightarrow> world \<times> 'a outcome" where
  "payable_transaction m msg_value body w =
     (if balances w (sender m) < msg_value then (w, Revert InsufficientFunds)
      else transaction (\<lambda>w0. body (move_ether (sender m) (marketplace_address w0) msg_value w0)) w)"

subsection \<open>The asset registry (ERC-721 base of the NFT contract)\<close>

text \<open>
  Modelled from the spec: the ERC-721 base contract that \<^verbatim>\<open>NFT\<close> inherits
  (ownerOf, getApproved, isApprovedForAll, approve, setApprovalForAll, transferFrom,
  safeTransferFrom and the internal mint) is imported library code and is not under src/.
  The definitions of this subsection follow section 4.1 of the specification: an asset
  has exactly one owner, a single approved transferer that every change of owner clears,
  and owner-wide operators; a safe transfer or safe mint also asks the receiver to accept
  the token.
\<close>

text \<open>Modelled from the spec: \<open>ownerOf\<close> of the ERC-721 base (not under src/); it fails for a token that was never minted.\<close>

definition ownerOf :: "uint256 \<Rightarrow> world \<Rightarrow> address outcome" where
  "ownerOf tokenId w =
     (if owners w tokenId = 0 then Revert ERC721_NotFound else Return (owners w tokenId))"

text \<open>Modelled from the spec: \<open>getApproved\<close> of the ERC-721 base (not under src/): the single approved transferer of an existing token.\<close>

definition getApproved :: "uint256 \<Rightarrow> world \<Rightarrow> address outcome" where
  "getApproved tokenId w =
     (if owners w tokenId = 0 then Revert ERC721_NotFound else Return (tokenApprovals w tokenId))"

text \<open>Modelled from the spec: \<open>isApprovedForAll\<close> of the ERC-721 base (not under src/): the owner-wide operators.\<close>

definition isApprovedForAll :: "address \<Rightarrow> address \<Rightarrow> world \<Rightarrow> bool" where
  "isApprovedForAll holder operator w = operatorApprovals w holder operator"

text \<open>Modelled from the spec: \<open>isApprovedForTransfer\<close> of section 4.1 (the ERC-721 base is not under src/): the spender is the approved transferer of the asset or an operator of its owner.\<close>

definition isApprovedForTransfer :: "uint256 \<Rightarrow> address \<Rightarrow> address \<Rightarrow> world \<Rightarrow> bool" where
  "isApprovedForTransfer tokenId holder spender w =
     (tokenApprovals w tokenId = spender \<or> operatorApprovals w holder spender)"

text \<open>Modelled from the spec: \<open>approve\<close> of the ERC-721 base (not under src/): only the current owner sets the approved transferer.\<close>

definition approve_body :: "msg \<Rightarrow> address \<Rightarrow> uint256 \<Rightarrow> world \<Rightarrow> world \<times> unit outcome" where
  "approve_body m approved tokenId w =
     (if owners w tokenId = 0 then (w, Revert ERC721_NotFound)
      else if sender m \<noteq> owners w tokenId then (w, Revert ERC721_NotOwner)
      else (w\<lparr>tokenApprovals := (tokenApprovals w)(tokenId := approved)\<rparr>, Return ()))"

definition approve :: "msg \<Rightarrow> address \<Rightarrow> uint256 \<Rightarrow> world \<Rightarrow> world \<times> unit outcome" where
  "approve m approved tokenId = transaction (approve_body m approved tokenId)"

text \<open>Modelled from the spec: \<open>setApprovalForAll\<close> of the ERC-721 base (not under src/): the caller grants or withdraws an operator.\<close>

definition setApprovalForAll :: "msg \<Rightarrow> address \<Rightarrow> bool \<Rightarrow> world \<Rightarrow> world \<times> unit outcome" where
  "setApprovalForAll m operator approved =
     transaction (\<lambda>w.
       (w\<lparr>operatorApprovals :=
            (operatorApprovals w)(sender m := (operatorApprovals w (sender m))(operator := approved))\<rparr>,
        Return ()))"

text \<open>Modelled from the spec: \<open>transferFrom\<close> of the ERC-721 base (not under src/): \<open>src\<close> must be the owner; the caller must be \<open>src\<close>, the approved transferer or an operator of \<open>src\<close>; the owner changes and the approval of the asset is cleared.\<close>

definition transferFrom_body ::
  "address \<Rightarrow> address \<Rightarrow> address \<Rightarrow> uint256 \<Rightarrow> world \<Rightarrow> world \<times> unit outcome" where
  "transferFrom_body caller src dst tokenId w =
     (if owners w tokenId = 0 then (w, Revert ERC721_NotFound)
      else if owners w tokenId \<noteq> src then (w, Revert ERC721_NotOwner)
      else if \<not> (caller = src \<or> isApprovedForTransfer tokenId src caller w)
        then (w, Revert ERC721_NotAuthorized)
      else if dst = 0 then (w, Revert ERC721_InvalidReceiver)
      else (w\<lparr>owners := (owners w)(tokenId := dst),
              tokenApprovals := (tokenApprovals w)(tokenId := 0)\<rparr>, Return ()))"

definition transferFrom ::
  "msg \<Rightarrow> address \<Rightarrow> address \<Rightarrow> uint256 \<Rightarrow> world \<Rightarrow> world \<times> unit outcome" where
  "transferFrom m src dst tokenId = transaction (transferFrom_body (sender m) src dst tokenId)"

text \<open>Modelled from the spec: \<open>safeTransferFrom\<close> of the ERC-721 base (not under src/): a transfer after which the receiver is asked to accept the token.\<close>

definition safeTransferFrom_body ::
  "address \<Rightarrow> address \<Rightarrow> address \<Rightarrow> uint256 \<Rightarrow> world \<Rightarrow> world \<times> unit outcome" where
  "safeTransferFrom_body caller src dst tokenId w =
     (case transferFrom_body caller src dst tokenId w of
        (w', Revert e) \<Rightarrow> (w', Revert e)
      | (w', Return u) \<Rightarrow>
          (if nft_receiver w' dst then (w', Return ()) else (w', Revert ERC721_InvalidReceiver)))"

text \<open>Modelled from the spec: \<open>_safeMint\<close> of the ERC-721 base (not under src/): a fresh asset gets its owner, with no approval, and the receiver is asked to accept it.\<close>

definition safeMint :: "address \<Rightarrow> uint256 \<Rightarrow> world \<Rightarrow> world \<times> unit outcome" where
  "safeMint dst tokenId w =
     (if dst = 0 then (w, Revert ERC721_InvalidReceiver)
      else if owners w tokenId \<noteq> 0 then (w, Revert ERC721_AlreadyMinted)
      else
        (let w' = w\<lparr>owners := (owners w)(tokenId := dst),
                     tokenApprovals := (tokenApprovals w)(tokenId := 0)\<rparr>
         in if nft_receiver w' dst then (w', Return ()) else (w', Revert ERC721_InvalidReceiver)))"

text \<open>Modelled from the spec: \<open>_setTokenURI\<close> of the ERC-721 URI storage (not under src/): the metadata URI is stored as given.\<close>

definition setTokenURI :: "uint256 \<Rightarrow> string \<Rightarrow> world \<Rightarrow> world" where
  "setTokenURI tokenId uri w = w\<lparr>tokenURIs := (tokenURIs w)(tokenId := uri)\<rparr>"

subsection \<open>The NFT contract\<close>

text \<open>
  \<^verbatim>\<open>NFT.mint\<close>: only the marketplace or the owner of the NFT contract may call it; the
  token goes to \<^verbatim>\<open>tx.origin\<close>.
\<close>

definition nft_mint_body :: "msg \<Rightarrow> string \<Rightarrow> world \<Rightarrow> world \<times> uint256 outcome" where
  "nft_mint_body m uri w =
     (if sender m \<noteq> nft_marketplaceAddress w \<and> sender m \<noteq> nft_owner w
        then (w, Revert NotAuthorizedToMint)
      else
        (let tokenId = tokenIdCounter w in
         if \<not> tokenIdCounter w + 1 < UINT256_LIMIT then (w, Revert Panic)
         else
           (let w1 = w\<lparr>tokenIdCounter := tokenIdCounter w + 1\<rparr> in
            case safeMint (origin m) tokenId w1 of
              (w2, Revert e) \<Rightarrow> (w2, Revert e)
            | (w2, Return u) \<Rightarrow> (setTokenURI tokenId uri w2, Return tokenId))))"

definition nft_mint :: "msg \<Rightarrow> string \<Rightarrow> world \<Rightarrow> world \<times> uint256 outcome" where
  "nft_mint m uri = nft_nonReentrant (nft_mint_body m uri)"

text \<open>\<^verbatim>\<open>NFT.mintTo\<close>: the same, with the receiver given by the caller.\<close>

definition nft_mintTo_body :: "msg \<Rightarrow> address \<Rightarrow> string \<Rightarrow> world \<Rightarrow> world \<times> uint256 outcome" where
  "nft_mintTo_body m dst uri w =
     (if sender m \<noteq> nft_marketplaceAddress w \<and> sender m \<noteq> nft_owner w
        then (w, Revert NotAuthorizedToMint)
      else
        (let tokenId = tokenIdCounter w in
         if \<not> tokenIdCounter w + 1 < UINT256_LIMIT then (w, Revert Panic)
         else
           (let w1 = w\<lparr>tokenIdCounter := tokenIdCounter w + 1\<rparr> in
            case safeMint dst tokenId w1 of
              (w2, Revert e) \<Rightarrow> (w2, Revert e)
            | (w2, Return u) \<Rightarrow> (setTokenURI tokenId uri w2, Return tokenId))))"

definition nft_mintTo :: "msg \<Rightarrow> address \<Rightarrow> string \<Rightarrow> world \<Rightarrow> world \<times> uint256 outcome" where
  "nft_mintTo m dst uri = nft_nonReentrant (nft_mintTo_body m dst uri)"

subsection \<open>The marketplace\<close>

text \<open>
  The constructors: the marketplace deploys the NFT contract with itself as the authorised
  minter, so the marketplace is also the owner of the NFT contract. Balances, addresses
  and the answers of the other accounts are taken from the environment.
\<close>

definition empty_listing :: Listing where
  "empty_listing = \<lparr>seller = 0, price = 0, isActive = False\<rparr>"

definition constructor :: "address \<Rightarrow> world \<Rightarrow> world" where
  "constructor deployer env =
     env\<lparr>tokenIdCounter := 0,
         owners := (\<lambda>t. 0),
         tokenApprovals := (\<lambda>t. 0),
         operatorApprovals := (\<lambda>a b. False),
         tokenURIs := (\<lambda>t. []),
         nft_marketplaceAddress := marketplace_address env,
         nft_owner := marketplace_address env,
         nft_entered := False,
         mp_owner := deployer,
         mp_entered := False,
         marketplaceFee := 250,
         listings := (\<lambda>t. empty_listing),
         listedTokenIds := [],
         listedTokenIndex := (\<lambda>t. 0),
         hasBeenListed := (\<lambda>t. False)\<rparr>"

text \<open>
  Calls from the marketplace into the NFT contract carry the marketplace as
  \<^verbatim>\<open>msg.sender\<close> and keep \<^verbatim>\<open>tx.origin\<close>.
\<close>

definition from_marketplace :: "msg \<Rightarrow> world \<Rightarrow> msg" where
  "from_marketplace m w = \<lparr>origin = origin m, sender = marketplace_address w\<rparr>"

definition mintNFT :: "msg \<Rightarrow> string \<Rightarrow> world \<Rightarrow> world \<times> uint256 outcome" where
  "mintNFT m uri =
     transaction (nonReentrant (\<lambda>w. nft_mint (from_marketplace m w) uri w))"

definition mintAndList_body :: "msg \<Rightarrow> string \<Rightarrow> uint256 \<Rightarrow> world \<Rightarrow> world \<times> uint256 outcome" where
  "mintAndList_body m uri new_price w =
     (if new_price = 0 then (w, Revert PriceMustBeGreaterThanZero)
      else
        (case nft_mintTo (from_marketplace m w) (sender m) uri w of
           (w1, Revert e) \<Rightarrow> (w1, Revert e)
         | (w1, Return tokenId) \<Rightarrow>
             (w1\<lparr>listings := (listings w1)
                     (tokenId := \<lparr>seller = sender m, price = new_price, isActive = True\<rparr>),
                 listedTokenIndex := (listedTokenIndex w1)(tokenId := length (listedTokenIds w1)),
                 listedTokenIds := listedTokenIds w1 @ [tokenId],
                 hasBeenListed := (hasBeenListed w1)(tokenId := True)\<rparr>,
              Return tokenId)))"

definition mintAndList :: "msg \<Rightarrow> string \<Rightarrow> uint256 \<Rightarrow> world \<Rightarrow> world \<times> uint256 outcome" where
  "mintAndList m uri new_price = transaction (nonReentrant (mintAndList_body m uri new_price))"

definition listNFT_body :: "msg \<Rightarrow> uint256 \<Rightarrow> uint256 \<Rightarrow> world \<Rightarrow> world \<times> unit outcome" where
  "listNFT_body m tokenId new_price w =
     (if new_price = 0 then (w, Revert PriceMustBeGreaterThanZero)
      else
        (case ownerOf tokenId w of
           Revert e \<Rightarrow> (w, Revert e)
         | Return holder \<Rightarrow>
             if holder \<noteq> sender m then (w, Revert NotTokenOwner)
             else
               (case getApproved tokenId w of
                  Revert e \<Rightarrow> (w, Revert e)
                | Return approved \<Rightarrow>
                    if approved \<noteq> marketplace_address w
                       \<and> \<not> isApprovedForAll (sender m) (marketplace_address w) w
                      then (w, Revert NotApprovedForMarketplace)
                    else
                      (let w1 = w\<lparr>listings := (listings w)
                                     (tokenId := \<lparr>seller = sender m, price = new_price, isActive = True\<rparr>)\<rparr>;
                           w2 = (if \<not> hasBeenListed w1 tokenId
                                 then w1\<lparr>listedTokenIndex :=
                                            (listedTokenIndex w1)(tokenId := length (listedTokenIds w1)),
                                         listedTokenIds := listedTokenIds w1 @ [tokenId],
                                         hasBeenListed := (hasBeenListed w1)(tokenId := True)\<rparr>
                                 else w1)
                       in (w2, Return ())))))"

definition listNFT :: "msg \<Rightarrow> uint256 \<Rightarrow> uint256 \<Rightarrow> world \<Rightarrow> world \<times> unit outcome" where
  "listNFT m tokenId new_price = transaction (nonReentrant (listNFT_body m tokenId new_price))"

text \<open>
  \<^verbatim>\<open>buyNFT\<close>: the three checks, the listing marked inactive, the fee and the seller's
  proceeds in checked arithmetic, the safe transfer of the token made by the marketplace,
  and the payment of the seller. The fee stays in the balance of the marketplace.
\<close>

definition buyNFT_body :: "msg \<Rightarrow> nat \<Rightarrow> uint256 \<Rightarrow> world \<Rightarrow> world \<times> unit outcome" where
  "buyNFT_body m msg_value tokenId w =
     (let listing = listings w tokenId in
      if \<not> isActive listing then (w, Revert ListingNotActive)
      else if sender m = seller listing then (w, Revert CannotBuyOwnNFT)
      else if msg_value \<noteq> price listing then (w, Revert IncorrectPaymentAmount)
      else
        (let w1 = w\<lparr>listings := (listings w)(tokenId := listing\<lparr>isActive := False\<rparr>)\<rparr> in
         if \<not> price listing * marketplaceFee w1 < UINT256_LIMIT then (w1, Revert Panic)
         else
           (let fee = (price listing * marketplaceFee w1) div FEE_DENOMINATOR in
            if price listing < fee then (w1, Revert Panic)
            else
              (let sellerProceeds = price listing - fee in
               case safeTransferFrom_body (marketplace_address w1) (seller listing) (sender m) tokenId w1 of
                 (w2, Revert e) \<Rightarrow> (w2, Revert e)
               | (w2, Return u) \<Rightarrow>
                   (case call_with_value (marketplace_address w2) (seller listing) sellerProceeds w2 of
                      None \<Rightarrow> (w2, Revert TransferFailed)
                    | Some w3 \<Rightarrow> (w3, Return ()))))))"

definition buyNFT :: "msg \<Rightarrow> nat \<Rightarrow> uint256 \<Rightarrow> world \<Rightarrow> world \<times> unit outcome" where
  "buyNFT m msg_value tokenId =
     payable_transaction m msg_value (nonReentrant (buyNFT_body m msg_value tokenId))"

definition delistNFT_body :: "msg \<Rightarrow> uint256 \<Rightarrow> world \<Rightarrow> world \<times> unit outcome" where
  "delistNFT_body m tokenId w =
     (let listing = listings w tokenId in
      if \<not> isActive listing then (w, Revert ListingNotActive)
      else if seller listing \<noteq> sender m then (w, Revert NotTokenOwner)
      else (w\<lparr>listings := (listings w)(tokenId := listing\<lparr>isActive := False\<rparr>)\<rparr>, Return ()))"

definition delistNFT :: "msg \<Rightarrow> uint256 \<Rightarrow> world \<Rightarrow> world \<times> unit outcome" where
  "delistNFT m tokenId = transaction (nonReentrant (delistNFT_body m tokenId))"

definition updateListingPrice_body :: "msg \<Rightarrow> uint256 \<Rightarrow> uint256 \<Rightarrow> world \<Rightarrow> world \<times> unit outcome" where
  "updateListingPrice_body m tokenId newPrice w =
     (if newPrice = 0 then (w, Revert PriceMustBeGreaterThanZero)
      else
        (let listing = listings w tokenId in
         if \<not> isActive listing then (w, Revert ListingNotActive)
         else if seller listing \<noteq> sender m then (w, Revert NotTokenOwner)
         else (w\<lparr>listings := (listings w)(tokenId := listing\<lparr>price := newPrice\<rparr>)\<rparr>, Return ())))"

definition updateListingPrice :: "msg \<Rightarrow> uint256 \<Rightarrow> uint256 \<Rightarrow> world \<Rightarrow> world \<times> unit outcome" where
  "updateListingPrice m tokenId newPrice =
     transaction (nonReentrant (updateListingPrice_body m tokenId newPrice))"

definition getListing :: "uint256 \<Rightarrow> world \<Rightarrow> address \<times> uint256 \<times> bool" where
  "getListing tokenId w =
     (let listing = listings w tokenId in (seller listing, price listing, isActive listing))"

definition setMarketplaceFee :: "msg \<Rightarrow> uint256 \<Rightarrow> world \<Rightarrow> world \<times> unit outcome" where
  "setMarketplaceFee m newFee =
     transaction (onlyOwner m (\<lambda>w.
       if MAX_FEE < newFee then (w, Revert FeeExceedsMaximum)
       else (w\<lparr>marketplaceFee := newFee\<rparr>, Return ())))"

text \<open>
  \<^verbatim>\<open>withdrawFees\<close>: the amount is the whole ether balance of the marketplace; both the
  empty balance and a payee that rejects revert with \<^verbatim>\<open>TransferFailed\<close>. Nothing is
  written after the call: the balance left is what the ledger of ether says.
\<close>

definition withdrawFees_body :: "address \<Rightarrow> world \<Rightarrow> world \<times> unit outcome" where
  "withdrawFees_body dst w =
     (let balance = balances w (marketplace_address w) in
      if balance = 0 then (w, Revert TransferFailed)
      else
        (case call_with_value_and_code (marketplace_address w) dst balance w of
           None \<Rightarrow> (w, Revert TransferFailed)
         | Some w' \<Rightarrow> (w', Return ())))"

definition withdrawFees :: "msg \<Rightarrow> address \<Rightarrow> world \<Rightarrow> world \<times> unit outcome" where
  "withdrawFees m dst = transaction (onlyOwner m (nonReentrant (withdrawFees_body dst)))"

subsection \<open>Enumeration of the active listings\<close>

text \<open>The counting loop of \<^verbatim>\<open>getActiveListings\<close> and \<^verbatim>\<open>getActiveListingCount\<close>.\<close>

function count_loop :: "world \<Rightarrow> nat \<Rightarrow> nat \<Rightarrow> nat" where
  "count_loop w i activeCount =
     (if i < length (listedTokenIds w)
      then count_loop w (i + 1)
             (if isActive (listings w (listedTokenIds w ! i)) then activeCount + 1 else activeCount)
      else activeCount)"
  by pat_completeness auto
termination
  by (relation "measure (\<lambda>(w, i, c). length (listedTokenIds w) - i)") auto

definition getActiveListingCount :: "world \<Rightarrow> uint256" where
  "getActiveListingCount w = count_loop w 0 0"

text \<open>
  The loop that fills the three result arrays: \<open>i\<close> walks the index, \<open>currentIndex\<close>
  counts the active entries seen, \<open>resultIndex\<close> the entries written.
\<close>

function populate_loop ::
  "world \<Rightarrow> nat \<Rightarrow> nat \<Rightarrow> nat \<Rightarrow> nat \<Rightarrow> nat
     \<Rightarrow> uint256 list \<times> address list \<times> uint256 list
     \<Rightarrow> uint256 list \<times> address list \<times> uint256 list" where
  "populate_loop w startIndex resultSize i currentIndex resultIndex arrays =
     (if i < length (listedTokenIds w) \<and> resultIndex < resultSize
      then
        (let tokenId = listedTokenIds w ! i in
         if isActive (listings w tokenId)
         then
           (if startIndex \<le> currentIndex
            then
              (case arrays of (tokenIds, sellers, prices) \<Rightarrow>
                 populate_loop w startIndex resultSize (i + 1) (currentIndex + 1) (resultIndex + 1)
                   (tokenIds[resultIndex := tokenId],
                    sellers[resultIndex := seller (listings w tokenId)],
                    prices[resultIndex := price (listings w tokenId)]))
            else populate_loop w startIndex resultSize (i + 1) (currentIndex + 1) resultIndex arrays)
         else populate_loop w startIndex resultSize (i + 1) currentIndex resultIndex arrays)
      else arrays)"
  by pat_completeness auto
termination
  by (relation "measure (\<lambda>(w, s, r, i, c, k, a). length (listedTokenIds w) - i)") auto

declare count_loop.simps [simp del] populate_loop.simps [simp del]

definition getActiveListings ::
  "uint256 \<Rightarrow> uint256 \<Rightarrow> world \<Rightarrow> (uint256 list \<times> address list \<times> uint256 list) outcome" where
  "getActiveListings offset limit w =
     (let activeCount = count_loop w 0 0;
          startIndex = offset in
      if \<not> offset + limit < UINT256_LIMIT then Revert Panic
      else
        (let endIndex = (if activeCount < offset + limit then activeCount else offset + limit);
             resultSize = (if startIndex < endIndex then endIndex - startIndex else 0)
         in Return (populate_loop w startIndex resultSize 0 0 0
                      (replicate resultSize 0, replicate resultSize 0, replicate resultSize 0))))"

definition getTotalListedCount :: "world \<Rightarrow> uint256" where
  "getTotalListedCount w = length (listedTokenIds w)"

subsection \<open>Sequences of calls\<close>

datatype call =
    MintNFT msg string
  | MintAndList msg string uint256
  | ListNFT msg uint256 uint256
  | BuyNFT msg nat uint256
  | DelistNFT msg uint256
  | UpdateListingPrice msg uint256 uint256
  | SetMarketplaceFee msg uint256
  | WithdrawFees msg address
  | Approve msg address uint256
  | SetApprovalForAll msg address bool
  | TransferFrom msg address address uint256

fun exec_call :: "world \<Rightarrow> call \<Rightarrow> world" where
  "exec_call w (MintNFT m uri) = fst (mintNFT m uri w)"
| "exec_call w (MintAndList m uri p) = fst (mintAndList m uri p w)"
| "exec_call w (ListNFT m t p) = fst (listNFT m t p w)"
| "exec_call w (BuyNFT m v t) = fst (buyNFT m v t w)"
| "exec_call w (DelistNFT m t) = fst (delistNFT m t w)"
| "exec_call w (UpdateListingPrice m t p) = fst (updateListingPrice m t p w)"
| "exec_call w (SetMarketplaceFee m f) = fst (setMarketplaceFee m f w)"
| "exec_call w (WithdrawFees m dst) = fst (withdrawFees m dst w)"
| "exec_call w (Approve m a t) = fst (approve m a t w)"
| "exec_call w (SetApprovalForAll m a b) = fst (setApprovalForAll m a b w)"
| "exec_call w (TransferFrom m src dst t) = fst (transferFrom m src dst t w)"

definition run :: "world \<Rightarrow> call list \<Rightarrow> world" where
  "run w cs = foldl exec_call w cs"

subsection \<open>The active listings, as the specification words them\<close>

text \<open>
  The specification describes the enumeration as the listing index in insertion order,
  filtered to the active listings. This definition follows those words; the loops above
  are compared with it.
\<close>

definition active_ids :: "world \<Rightarrow> uint256 list" where
  "active_ids w = filter (\<lambda>t. isActive (listings w t)) (listedTokenIds w)"

definition page_of :: "world \<Rightarrow> uint256 list \<Rightarrow> uint256 list \<times> address list \<times> uint256 list" where
  "page_of w ids =
     (ids, map (\<lambda>t. seller (listings w t)) ids, map (\<lambda>t. price (listings w t)) ids)"

subsection \<open>The invariant of the listing index\<close>

text \<open>
  The index has no duplicates, it holds exactly the tokens flagged as listed before, every
  active listing is flagged, and every minted or indexed token id is below the counter of
  the NFT contract.
\<close>

definition index_inv :: "world \<Rightarrow> bool" where
  "index_inv w =
     (distinct (listedTokenIds w)
      \<and> (\<forall>t. hasBeenListed w t \<longleftrightarrow> t \<in> set (listedTokenIds w))
      \<and> (\<forall>t. isActive (listings w t) \<longrightarrow> hasBeenListed w t)
      \<and> (\<forall>t. owners w t \<noteq> 0 \<longrightarrow> t < tokenIdCounter w)
      \<and> (\<forall>t \<in> set (listedTokenIds w). t < tokenIdCounter w))"

subsection \<open>Example worlds\<close>

text \<open>
  The marketplace is account 100 and the NFT contract account 101; the deployer is
  account 1. Every other account holds 5000 wei and accepts tokens; account 4 is a contract
  that rejects ether, account 6 a contract whose receive function sends 10 wei back.
\<close>

definition env0 :: world where
  "env0 =
     \<lparr>balances = (\<lambda>a. if a = 100 \<or> a = 101 then 0 else 5000),
      payable_account = (\<lambda>a. a \<noteq> 4),
      nft_receiver = (\<lambda>a. True),
      sends_back = (\<lambda>a. if a = 6 then 10 else 0),
      marketplace_address = 100,
      nft_address = 101,
      tokenIdCounter = 0,
      owners = (\<lambda>t. 0),
      tokenApprovals = (\<lambda>t. 0),
      operatorApprovals = (\<lambda>a b. False),
      tokenURIs = (\<lambda>t. []),
      nft_marketplaceAddress = 0,
      nft_owner = 0,
      nft_entered = False,
      mp_owner = 0,
      mp_entered = False,
      marketplaceFee = 0,
      listings = (\<lambda>t. empty_listing),
      listedTokenIds = [],
      listedTokenIndex = (\<lambda>t. 0),
      hasBeenListed = (\<lambda>t. False)\<rparr>"

definition genesis :: world where
  "genesis = constructor 1 env0"

definition user :: "address \<Rightarrow> msg" where
  "user a = \<lparr>origin = a, sender = a\<rparr>"

text \<open>A call of account \<open>c\<close>, a contract, inside a transaction started by account \<open>a\<close>.\<close>

definition relayed :: "address \<Rightarrow> address \<Rightarrow> msg" where
  "relayed a c = \<lparr>origin = a, sender = c\<rparr>"

text \<open>Account 2 mints token 0, lists it for 1000 wei and approves the marketplace.\<close>

definition alice_lists :: world where
  "alice_lists = run genesis [MintAndList (user 2) ''ipfs://a'' 1000, Approve (user 2) 100 0]"

text \<open>The same by account 4, which rejects ether.\<close>

definition carol_lists :: world where
  "carol_lists = run genesis [MintAndList (user 4) ''ipfs://c'' 1000, Approve (user 4) 100 0]"

text \<open>Account 3 has bought token 0 from account 2: the marketplace holds the fee.\<close>

definition after_sale :: world where
  "after_sale = run alice_lists [BuyNFT (user 3) 1000 0]"

text \<open>Account 2 has listed token 0 and then transferred it to account 3 directly.\<close>

definition transferred_away :: world where
  "transferred_away = run alice_lists [TransferFrom (user 2) 2 3 0]"

text \<open>Six tokens listed by accounts 2 and 3, the second of them delisted: five active listings.\<close>

definition six_listed :: world where
  "six_listed = run genesis
     [MintAndList (user 2) ''ipfs://0'' 10, MintAndList (user 3) ''ipfs://1'' 20,
      MintAndList (user 2) ''ipfs://2'' 30, MintAndList (user 3) ''ipfs://3'' 40,
      MintAndList (user 2) ''ipfs://4'' 50, MintAndList (user 3) ''ipfs://5'' 60,
      DelistNFT (user 3) 1]"

text \<open>Token 0 is listed, delisted and listed again.\<close>

definition relist_calls :: "call list" where
  "relist_calls =
     [MintAndList (user 2) ''ipfs://a'' 1000, Approve (user 2) 100 0,
      DelistNFT (user 2) 0, ListNFT (user 2) 0 2000]"

section \<open>Properties\<close>

subsection \<open>Auxiliary facts\<close>

lemmas all_splits = if_splits prod.splits outcome.splits option.splits

lemmas buy_defs = buyNFT_def payable_transaction_def transaction_def nonReentrant_def buyNFT_body_def
  safeTransferFrom_body_def transferFrom_body_def call_with_value_def move_ether_def Let_def
  FEE_DENOMINATOR_def

text \<open>The definitions that the evaluation of a call on an example world unfolds.\<close>

lemmas ev = run_def mintAndList_def mintAndList_body_def transaction_def nonReentrant_def
  nft_nonReentrant_def nft_mintTo_def nft_mintTo_body_def nft_mint_def nft_mint_body_def mintNFT_def
  safeMint_def setTokenURI_def from_marketplace_def UINT256_LIMIT_def
  approve_def approve_body_def constructor_def env0_def genesis_def user_def empty_listing_def
  buyNFT_def buyNFT_body_def payable_transaction_def move_ether_def safeTransferFrom_body_def
  transferFrom_body_def transferFrom_def isApprovedForTransfer_def call_with_value_def
  can_receive_ether_def FEE_DENOMINATOR_def listNFT_def listNFT_body_def ownerOf_def getApproved_def
  isApprovedForAll_def delistNFT_def delistNFT_body_def updateListingPrice_def
  updateListingPrice_body_def withdrawFees_def withdrawFees_body_def onlyOwner_def
  call_with_value_and_code_def Let_def

lemma transaction_Revert:
  "snd (transaction body w) = Revert e \<Longrightarrow> fst (transaction body w) = w"
  by (auto simp: transaction_def split: prod.splits outcome.splits)

lemma transaction_cases:
  "(\<exists>r w'. body w = (w', Return r) \<and> transaction body w = (w', Return r))
   \<or> (\<exists>e. transaction body w = (w, Revert e))"
  by (auto simp: transaction_def split: all_splits)

lemma transaction_preserves:
  assumes "P w" and "\<And>w' r. body w = (w', Return r) \<Longrightarrow> P w'"
  shows "P (fst (transaction body w))"
  using assms transaction_cases [of body w] by auto

lemma nonReentrant_Return:
  "nonReentrant body w = (w', Return r) \<Longrightarrow>
     \<not> mp_entered w
     \<and> (\<exists>w1. body (w\<lparr>mp_entered := True\<rparr>) = (w1, Return r) \<and> w' = w1\<lparr>mp_entered := False\<rparr>)"
  by (auto simp: nonReentrant_def split: all_splits)

lemma nft_nonReentrant_Return:
  "nft_nonReentrant body w = (w', Return r) \<Longrightarrow>
     \<not> nft_entered w
     \<and> (\<exists>w1. body (w\<lparr>nft_entered := True\<rparr>) = (w1, Return r) \<and> w' = w1\<lparr>nft_entered := False\<rparr>)"
  by (auto simp: nft_nonReentrant_def split: all_splits)

lemma alice_lists_facts:
  "listings alice_lists 0 = \<lparr>seller = 2, price = 1000, isActive = True\<rparr>"
  "listings alice_lists 7 = empty_listing"
  "marketplaceFee alice_lists = 250"
  "marketplace_address alice_lists = 100"
  "\<not> mp_entered alice_lists"
  "balances alice_lists 2 = 5000"
  "balances alice_lists 3 = 5000"
  "balances alice_lists 100 = 0"
  "owners alice_lists 0 = 2"
  by (simp_all add: alice_lists_def ev)

lemma alice_sale: "buyNFT (user 3) 1000 0 alice_lists = (after_sale, Return ())"
proof (rule prod_eqI)
  show "fst (buyNFT (user 3) 1000 0 alice_lists) = fst (after_sale, Return ())"
    by (simp add: after_sale_def run_def)
  show "snd (buyNFT (user 3) 1000 0 alice_lists) = snd (after_sale, Return ())"
    by (simp add: alice_lists_def ev)
qed

lemma after_sale_facts:
  "balances after_sale 100 = 25"
  "balances after_sale 2 = 5975"
  "balances after_sale 3 = 4000"
  "balances after_sale 5 = 5000"
  "owners after_sale 0 = 3"
  "mp_owner after_sale = 1"
  "marketplace_address after_sale = 100"
  "\<not> mp_entered after_sale"
  "\<not> isActive (listings after_sale 0)"
  by (simp_all add: after_sale_def alice_lists_def ev)

subsection \<open>Settlement: \<^verbatim>\<open>buyNFT\<close>\<close>

lemma buyNFT_settles_iff:
  "snd (buyNFT m v t w) = Return () \<longleftrightarrow>
     \<not> mp_entered w \<and> v \<le> balances w (sender m)
     \<and> isActive (listings w t) \<and> sender m \<noteq> seller (listings w t) \<and> v = price (listings w t)
     \<and> price (listings w t) * marketplaceFee w < UINT256_LIMIT
     \<and> price (listings w t) * marketplaceFee w div FEE_DENOMINATOR \<le> price (listings w t)
     \<and> snd (safeTransferFrom_body (marketplace_address w) (seller (listings w t)) (sender m) t w)
         = Return ()
     \<and> can_receive_ether w (seller (listings w t))"
  by (auto simp: buyNFT_def payable_transaction_def transaction_def nonReentrant_def buyNFT_body_def
        safeTransferFrom_body_def transferFrom_body_def isApprovedForTransfer_def
        call_with_value_def move_ether_def can_receive_ether_def Let_def
        split: if_splits prod.splits outcome.splits option.splits)


lemma buyNFT_payment_rejected:
  assumes "\<not> mp_entered w" and "v \<le> balances w (sender m)"
    and "isActive (listings w t)" and "sender m \<noteq> seller (listings w t)"
    and "v = price (listings w t)"
    and "price (listings w t) * marketplaceFee w < UINT256_LIMIT"
    and "price (listings w t) * marketplaceFee w div FEE_DENOMINATOR \<le> price (listings w t)"
    and "snd (safeTransferFrom_body (marketplace_address w) (seller (listings w t)) (sender m) t w)
         = Return ()"
    and "\<not> can_receive_ether w (seller (listings w t))"
  shows "buyNFT m v t w = (w, Revert TransferFailed)
       \<and> \<not> isActive (listings (fst (buyNFT_body m v t
              ((move_ether (sender m) (marketplace_address w) v w)\<lparr>mp_entered := True\<rparr>))) t)
       \<and> owners (fst (buyNFT_body m v t
              ((move_ether (sender m) (marketplace_address w) v w)\<lparr>mp_entered := True\<rparr>))) t
           = sender m"
  using assms
  by (auto simp: buyNFT_def payable_transaction_def transaction_def nonReentrant_def buyNFT_body_def
        safeTransferFrom_body_def transferFrom_body_def isApprovedForTransfer_def
        call_with_value_def move_ether_def can_receive_ether_def Let_def
        split: if_splits prod.splits outcome.splits option.splits)

lemma buyNFT_transfer_failed:
  assumes "\<not> mp_entered w" and "v \<le> balances w (sender m)"
    and "isActive (listings w t)" and "sender m \<noteq> seller (listings w t)"
    and "v = price (listings w t)"
    and "price (listings w t) * marketplaceFee w < UINT256_LIMIT"
    and "price (listings w t) * marketplaceFee w div FEE_DENOMINATOR \<le> price (listings w t)"
    and "snd (safeTransferFrom_body (marketplace_address w) (seller (listings w t)) (sender m) t w)
         = Revert e'"
  shows "buyNFT m v t w = (w, Revert e')
       \<and> \<not> isActive (listings (fst (buyNFT_body m v t
              ((move_ether (sender m) (marketplace_address w) v w)\<lparr>mp_entered := True\<rparr>))) t)"
  using assms
  by (auto simp: buyNFT_def payable_transaction_def transaction_def nonReentrant_def buyNFT_body_def
        safeTransferFrom_body_def transferFrom_body_def isApprovedForTransfer_def
        call_with_value_def move_ether_def can_receive_ether_def Let_def
        split: if_splits prod.splits outcome.splits option.splits)

lemma buyNFT_Revert_unchanged:
  "snd (buyNFT m v t w) = Revert e \<Longrightarrow> fst (buyNFT m v t w) = w"
  unfolding buyNFT_def payable_transaction_def
  by (auto simp: transaction_Revert split: if_splits)

text \<open>
  Claim C1. A call of \<open>buyNFT\<close> either settles or changes nothing. It settles exactly
  when the marketplace is not inside a guarded call, the caller holds the payment, the
  three checks pass, the fee arithmetic stays in range, the transfer of the token by the
  marketplace succeeds and the seller accepts the payment. In every other case the call
  reverts and the whole world (listings, ownership, the listing index, all balances) is
  the one of before the call. In particular, when the seller rejects the payment the call
  fails with \<open>TransferFailed\<close> although the body had already marked the listing
  inactive and moved the token to the buyer; and when the token transfer fails the call
  fails with the error of the transfer although the body had already marked the listing
  inactive.
\<close>

theorem buyNFT_failure_restores_state:
  "(snd (buyNFT m v t w) = Revert e \<longrightarrow> fst (buyNFT m v t w) = w)
   \<and> (snd (buyNFT m v t w) = Return () \<longleftrightarrow>
        \<not> mp_entered w \<and> v \<le> balances w (sender m)
        \<and> isActive (listings w t) \<and> sender m \<noteq> seller (listings w t) \<and> v = price (listings w t)
        \<and> price (listings w t) * marketplaceFee w < UINT256_LIMIT
        \<and> price (listings w t) * marketplaceFee w div FEE_DENOMINATOR \<le> price (listings w t)
        \<and> snd (safeTransferFrom_body (marketplace_address w) (seller (listings w t)) (sender m) t w)
            = Return ()
        \<and> can_receive_ether w (seller (listings w t)))
   \<and> (\<not> mp_entered w \<and> v \<le> balances w (sender m)
        \<and> isActive (listings w t) \<and> sender m \<noteq> seller (listings w t) \<and> v = price (listings w t)
        \<and> price (listings w t) * marketplaceFee w < UINT256_LIMIT
        \<and> price (listings w t) * marketplaceFee w div FEE_DENOMINATOR \<le> price (listings w t)
        \<and> snd (safeTransferFrom_body (marketplace_address w) (seller (listings w t)) (sender m) t w)
            = Return ()
        \<and> \<not> can_receive_ether w (seller (listings w t))
        \<longrightarrow> buyNFT m v t w = (w, Revert TransferFailed)
            \<and> \<not> isActive (listings (fst (buyNFT_body m v t
                   ((move_ether (sender m) (marketplace_address w) v w)\<lparr>mp_entered := True\<rparr>))) t)
            \<and> owners (fst (buyNFT_body m v t
                   ((move_ether (sender m) (marketplace_address w) v w)\<lparr>mp_entered := True\<rparr>))) t
                = sender m)
   \<and> (\<not> mp_entered w \<and> v \<le> balances w (sender m)
        \<and> isActive (listings w t) \<and> sender m \<noteq> seller (listings w t) \<and> v = price (listings w t)
        \<and> price (listings w t) * marketplaceFee w < UINT256_LIMIT
        \<and> price (listings w t) * marketplaceFee w div FEE_DENOMINATOR \<le> price (listings w t)
        \<and> snd (safeTransferFrom_body (marketplace_address w) (seller (listings w t)) (sender m) t w)
            = Revert e'
        \<longrightarrow> buyNFT m v t w = (w, Revert e')
            \<and> \<not> isActive (listings (fst (buyNFT_body m v t
                   ((move_ether (sender m) (marketplace_address w) v w)\<lparr>mp_entered := True\<rparr>))) t))"
proof (intro conjI)
  show "snd (buyNFT m v t w) = Revert e \<longrightarrow> fst (buyNFT m v t w) = w"
    by (simp add: buyNFT_Revert_unchanged)
next
  show "snd (buyNFT m v t w) = Return () \<longleftrightarrow>
        \<not> mp_entered w \<and> v \<le> balances w (sender m)
        \<and> isActive (listings w t) \<and> sender m \<noteq> seller (listings w t) \<and> v = price (listings w t)
        \<and> price (listings w t) * marketplaceFee w < UINT256_LIMIT
        \<and> price (listings w t) * marketplaceFee w div FEE_DENOMINATOR \<le> price (listings w t)
        \<and> snd (safeTransferFrom_body (marketplace_address w) (seller (listings w t)) (sender m) t w)
            = Return ()
        \<and> can_receive_ether w (seller (listings w t))"
    by (rule buyNFT_settles_iff)
next
  show "\<not> mp_entered w \<and> v \<le> balances w (sender m)
        \<and> isActive (listings w t) \<and> sender m \<noteq> seller (listings w t) \<and> v = price (listings w t)
        \<and> price (listings w t) * marketplaceFee w < UINT256_LIMIT
        \<and> price (listings w t) * marketplaceFee w div FEE_DENOMINATOR \<le> price (listings w t)
        \<and> snd (safeTransferFrom_body (marketplace_address w) (seller (listings w t)) (sender m) t w)
            = Return ()
        \<and> \<not> can_receive_ether w (seller (listings w t))
        \<longrightarrow> buyNFT m v t w = (w, Revert TransferFailed)
            \<and> \<not> isActive (listings (fst (buyNFT_body m v t
                   ((move_ether (sender m) (marketplace_address w) v w)\<lparr>mp_entered := True\<rparr>))) t)
            \<and> owners (fst (buyNFT_body m v t
                   ((move_ether (sender m) (marketplace_address w) v w)\<lparr>mp_entered := True\<rparr>))) t
                = sender m"
    using buyNFT_payment_rejected [of w v m t] by blast
next
  show "\<not> mp_entered w \<and> v \<le> balances w (sender m)
        \<and> isActive (listings w t) \<and> sender m \<noteq> seller (listings w t) \<and> v = price (listings w t)
        \<and> price (listings w t) * marketplaceFee w < UINT256_LIMIT
        \<and> price (listings w t) * marketplaceFee w div FEE_DENOMINATOR \<le> price (listings w t)
        \<and> snd (safeTransferFrom_body (marketplace_address w) (seller (listings w t)) (sender m) t w)
            = Revert e'
        \<longrightarrow> buyNFT m v t w = (w, Revert e')
            \<and> \<not> isActive (listings (fst (buyNFT_body m v t
                   ((move_ether (sender m) (marketplace_address w) v w)\<lparr>mp_entered := True\<rparr>))) t)"
    using buyNFT_transfer_failed [of w v m t e'] by blast
qed

text \<open>
  The witness: account 3 buys token 0 from account 4, which rejects the payment; account 5
  buys token 0 that its seller has transferred away; account 3 buys token 0 from account 2,
  which settles, and with 1001 wei, which does not.
\<close>

theorem buyNFT_failure_restores_state_witness:
  "buyNFT (user 3) 1000 0 carol_lists = (carol_lists, Revert TransferFailed)
   \<and> \<not> isActive (listings (fst (buyNFT_body (user 3) 1000 0
          ((move_ether 3 100 1000 carol_lists)\<lparr>mp_entered := True\<rparr>))) 0)
   \<and> owners (fst (buyNFT_body (user 3) 1000 0
          ((move_ether 3 100 1000 carol_lists)\<lparr>mp_entered := True\<rparr>))) 0 = 3
   \<and> isActive (listings carol_lists 0) \<and> owners carol_lists 0 = 4
   \<and> buyNFT (user 5) 1000 0 transferred_away = (transferred_away, Revert ERC721_NotOwner)
   \<and> \<not> isActive (listings (fst (buyNFT_body (user 5) 1000 0
          ((move_ether 5 100 1000 transferred_away)\<lparr>mp_entered := True\<rparr>))) 0)
   \<and> isActive (listings transferred_away 0)
   \<and> snd (buyNFT (user 3) 1000 0 alice_lists) = Return ()
   \<and> snd (buyNFT (user 3) 1001 0 alice_lists) = Revert IncorrectPaymentAmount
   \<and> fst (buyNFT (user 3) 1001 0 alice_lists) = alice_lists"
proof -
  have c: "\<not> mp_entered carol_lists" "balances carol_lists 3 = 5000"
    "listings carol_lists 0 = \<lparr>seller = 4, price = 1000, isActive = True\<rparr>"
    "marketplaceFee carol_lists = 250" "marketplace_address carol_lists = 100"
    "snd (safeTransferFrom_body 100 4 3 0 carol_lists) = Return ()"
    "\<not> can_receive_ether carol_lists 4" "owners carol_lists 0 = 4"
    by (simp_all add: carol_lists_def ev)
  have d: "\<not> mp_entered transferred_away" "balances transferred_away 5 = 5000"
    "listings transferred_away 0 = \<lparr>seller = 2, price = 1000, isActive = True\<rparr>"
    "marketplaceFee transferred_away = 250" "marketplace_address transferred_away = 100"
    "snd (safeTransferFrom_body 100 2 5 0 transferred_away) = Revert ERC721_NotOwner"
    by (simp_all add: transferred_away_def alice_lists_def ev)
  have a: "snd (safeTransferFrom_body 100 2 3 0 alice_lists) = Return ()"
    "can_receive_ether alice_lists 2"
    by (simp_all add: alice_lists_def ev)
  have w: "snd (buyNFT (user 3) 1001 0 alice_lists) = Revert IncorrectPaymentAmount"
    by (simp add: alice_lists_def ev)
  note T1 = buyNFT_failure_restores_state [of "user 3" 1000 0 carol_lists TransferFailed TransferFailed]
  note T2 = buyNFT_failure_restores_state [of "user 5" 1000 0 transferred_away ERC721_NotOwner ERC721_NotOwner]
  note T3 = buyNFT_failure_restores_state [of "user 3" 1000 0 alice_lists TransferFailed TransferFailed]
  note T4 = buyNFT_failure_restores_state [of "user 3" 1001 0 alice_lists IncorrectPaymentAmount TransferFailed]
  have 1: "buyNFT (user 3) 1000 0 carol_lists = (carol_lists, Revert TransferFailed)
     \<and> \<not> isActive (listings (fst (buyNFT_body (user 3) 1000 0
          ((move_ether 3 100 1000 carol_lists)\<lparr>mp_entered := True\<rparr>))) 0)
     \<and> owners (fst (buyNFT_body (user 3) 1000 0
          ((move_ether 3 100 1000 carol_lists)\<lparr>mp_entered := True\<rparr>))) 0 = 3"
    using T1 [THEN conjunct2, THEN conjunct2, THEN conjunct1]
    by (simp add: c user_def UINT256_LIMIT_def FEE_DENOMINATOR_def)
  have 2: "buyNFT (user 5) 1000 0 transferred_away = (transferred_away, Revert ERC721_NotOwner)
     \<and> \<not> isActive (listings (fst (buyNFT_body (user 5) 1000 0
          ((move_ether 5 100 1000 transferred_away)\<lparr>mp_entered := True\<rparr>))) 0)"
    using T2 [THEN conjunct2, THEN conjunct2, THEN conjunct2]
    by (simp add: d user_def UINT256_LIMIT_def FEE_DENOMINATOR_def)
  have 3: "snd (buyNFT (user 3) 1000 0 alice_lists) = Return ()"
    using T3 [THEN conjunct2, THEN conjunct1]
    by (simp add: a alice_lists_facts user_def UINT256_LIMIT_def FEE_DENOMINATOR_def)
  have 4: "fst (buyNFT (user 3) 1001 0 alice_lists) = alice_lists"
    using T4 [THEN conjunct1] w by simp
  from 1 2 3 4 w c d show ?thesis by simp
qed

text \<open>
  Claim C2. On every successful \<open>buyNFT\<close> of a listing with price \<open>p\<close> under the fee
  rate \<open>r\<close> (basis points), the payment attached is \<open>p\<close>, the fee is \<open>p * r div 10000\<close>
  (floor division), the balance of the seller grows by exactly \<open>p\<close> minus the fee, the
  balance of the marketplace grows by exactly the fee and the buyer pays \<open>p\<close>. With
  \<open>p = 1000\<close> and \<open>r = 250\<close> the fee is 25 and the seller receives 975. The marketplace
  contract itself is neither the seller nor the buyer: it never calls its own functions.
\<close>

theorem buyNFT_fee_split:
  assumes "buyNFT m v t w = (w', Return u)"
    and "seller (listings w t) \<noteq> marketplace_address w"
    and "sender m \<noteq> marketplace_address w"
  shows "v = price (listings w t)
       \<and> price (listings w t) * marketplaceFee w div 10000 \<le> price (listings w t)
       \<and> balances w' (seller (listings w t)) =
           balances w (seller (listings w t))
           + (price (listings w t) - price (listings w t) * marketplaceFee w div 10000)
       \<and> balances w' (marketplace_address w) =
           balances w (marketplace_address w) + price (listings w t) * marketplaceFee w div 10000
       \<and> balances w' (sender m) = balances w (sender m) - price (listings w t)
       \<and> (price (listings w t) = 1000 \<and> marketplaceFee w = 250 \<longrightarrow>
            balances w' (seller (listings w t)) = balances w (seller (listings w t)) + 975
          \<and> balances w' (marketplace_address w) = balances w (marketplace_address w) + 25)"
  using assms
  by (auto simp: buy_defs split: if_splits prod.splits outcome.splits option.splits)

theorem buyNFT_fee_split_witness:
  "buyNFT (user 3) 1000 0 alice_lists = (after_sale, Return ())
   \<and> price (listings alice_lists 0) = 1000 \<and> marketplaceFee alice_lists = 250
   \<and> balances after_sale 2 = balances alice_lists 2 + 975
   \<and> balances after_sale 100 = balances alice_lists 100 + 25
   \<and> balances after_sale 3 = balances alice_lists 3 - 1000"
proof -
  have s: "seller (listings alice_lists 0) \<noteq> marketplace_address alice_lists"
    by (simp add: alice_lists_facts)
  have c: "sender (user 3) \<noteq> marketplace_address alice_lists"
    by (simp add: alice_lists_facts user_def)
  from buyNFT_fee_split [OF alice_sale s c] alice_sale show ?thesis
    by (simp add: alice_lists_facts user_def)
qed

text \<open>
  Claim C3. The checks of \<open>buyNFT\<close>, in their order, for a caller that holds the payment
  it attaches and a marketplace that is not inside another guarded call: a token that was
  never listed or whose listing is inactive gives \<open>ListingNotActive\<close>; on an active
  listing the seller as caller gives \<open>CannotBuyOwnNFT\<close> (the specification's SelfPurchase);
  on an active listing and another caller a payment different from the price, smaller or
  larger, gives \<open>IncorrectPaymentAmount\<close> (the specification's WrongPaymentAmount): an
  overpayment is rejected, not refunded. Nothing changes in any of these cases.
\<close>

theorem buyNFT_rejects:
  assumes "\<not> mp_entered w" and "v \<le> balances w (sender m)"
  shows "(\<not> isActive (listings w t) \<longrightarrow> buyNFT m v t w = (w, Revert ListingNotActive))
       \<and> (isActive (listings w t) \<and> sender m = seller (listings w t)
            \<longrightarrow> buyNFT m v t w = (w, Revert CannotBuyOwnNFT))
       \<and> (isActive (listings w t) \<and> sender m \<noteq> seller (listings w t) \<and> v < price (listings w t)
            \<longrightarrow> buyNFT m v t w = (w, Revert IncorrectPaymentAmount))
       \<and> (isActive (listings w t) \<and> sender m \<noteq> seller (listings w t) \<and> price (listings w t) < v
            \<longrightarrow> buyNFT m v t w = (w, Revert IncorrectPaymentAmount))"
  using assms
  by (auto simp: buy_defs split: if_splits prod.splits outcome.splits option.splits)

theorem buyNFT_rejects_witness:
  "buyNFT (user 3) 1000 7 alice_lists = (alice_lists, Revert ListingNotActive)
   \<and> buyNFT (user 2) 1000 0 alice_lists = (alice_lists, Revert CannotBuyOwnNFT)
   \<and> buyNFT (user 3) 999 0 alice_lists = (alice_lists, Revert IncorrectPaymentAmount)
   \<and> buyNFT (user 3) 1001 0 alice_lists = (alice_lists, Revert IncorrectPaymentAmount)"
proof -
  have e: "\<not> mp_entered alice_lists" by (simp add: alice_lists_facts)
  have b3: "v \<le> 5000 \<Longrightarrow> v \<le> balances alice_lists (sender (user 3))" for v
    by (simp add: alice_lists_facts user_def)
  have b2: "1000 \<le> balances alice_lists (sender (user 2))"
    by (simp add: alice_lists_facts user_def)
  show ?thesis
    using buyNFT_rejects [OF e b3, of 1000 7] buyNFT_rejects [OF e b2, of 0]
      buyNFT_rejects [OF e b3, of 999 0] buyNFT_rejects [OF e b3, of 1001 0]
    by (simp add: alice_lists_facts user_def empty_listing_def)
qed

text \<open>
  Claim C4. After a successful \<open>buyNFT\<close> of a token its listing is inactive, and a second
  \<open>buyNFT\<close> of the same token, by any caller with any payment it holds, fails with
  \<open>ListingNotActive\<close> and changes nothing. The listing is marked inactive before the token
  and the ether move: once the three checks have passed, every world in which the body can
  stop has the listing inactive.
\<close>

theorem buyNFT_second_purchase_fails:
  assumes "buyNFT m v t w = (w', Return u)" and "v2 \<le> balances w' (sender m2)"
  shows "\<not> isActive (listings w' t)
       \<and> buyNFT m2 v2 t w' = (w', Revert ListingNotActive)
       \<and> (\<forall>w0 m0. isActive (listings w0 t) \<and> sender m0 \<noteq> seller (listings w0 t)
            \<longrightarrow> \<not> isActive (listings (fst (buyNFT_body m0 (price (listings w0 t)) t w0)) t))"
  using assms
  by (auto simp: buy_defs split: if_splits prod.splits outcome.splits option.splits)

theorem buyNFT_second_purchase_fails_witness:
  "buyNFT (user 3) 1000 0 alice_lists = (after_sale, Return ())
   \<and> \<not> isActive (listings after_sale 0)
   \<and> buyNFT (user 5) 1000 0 after_sale = (after_sale, Revert ListingNotActive)"
proof -
  have b: "1000 \<le> balances after_sale (sender (user 5))"
    by (simp add: after_sale_facts user_def)
  from buyNFT_second_purchase_fails [OF alice_sale b] alice_sale show ?thesis
    by simp
qed

subsection \<open>The listing index\<close>

lemma index_inv_entered [simp]: "index_inv (w\<lparr>mp_entered := b\<rparr>) = index_inv w"
  by (simp add: index_inv_def)

lemma index_inv_nft_entered [simp]: "index_inv (w\<lparr>nft_entered := b\<rparr>) = index_inv w"
  by (simp add: index_inv_def)

lemma index_inv_balances [simp]: "index_inv (w\<lparr>balances := b\<rparr>) = index_inv w"
  by (simp add: index_inv_def)

lemma nonReentrant_preserves:
  assumes "index_inv w" and "\<And>w0 w1 r. index_inv w0 \<Longrightarrow> body w0 = (w1, Return r) \<Longrightarrow> index_inv w1"
    and "nonReentrant body w = (w', Return r)"
  shows "index_inv w'"
proof -
  from nonReentrant_Return [OF assms(3)] obtain w1
    where b: "body (w\<lparr>mp_entered := True\<rparr>) = (w1, Return r)" and w': "w' = w1\<lparr>mp_entered := False\<rparr>"
    by blast
  have "index_inv (w\<lparr>mp_entered := True\<rparr>)" using assms(1) by simp
  from assms(2) [OF this b] show ?thesis by (simp add: w')
qed

lemma inv_constructor: "index_inv (constructor d env)"
  by (simp add: index_inv_def constructor_def empty_listing_def)

lemma safeMint_Return:
  "safeMint dst t w = (w', Return u) \<Longrightarrow>
     owners w t = 0 \<and> dst \<noteq> 0
     \<and> w' = w\<lparr>owners := (owners w)(t := dst), tokenApprovals := (tokenApprovals w)(t := 0)\<rparr>"
  by (auto simp: safeMint_def Let_def split: if_splits)

lemma inv_fresh_token:
  assumes "index_inv w" and "owners w (tokenIdCounter w) = 0"
  shows "index_inv (w\<lparr>tokenIdCounter := tokenIdCounter w + 1,
                     owners := (owners w)(tokenIdCounter w := dst),
                     tokenApprovals := ta, tokenURIs := tu\<rparr>)"
  using assms by (auto simp: index_inv_def intro: less_SucI)

lemma nft_mint_body_Return:
  assumes "nft_mint_body m uri w = (w', Return tid)"
  shows "tid = tokenIdCounter w \<and> owners w tid = 0 \<and> origin m \<noteq> 0 \<and>
         w' = w\<lparr>tokenIdCounter := tokenIdCounter w + 1,
                owners := (owners w)(tid := origin m),
                tokenApprovals := (tokenApprovals w)(tid := 0),
                tokenURIs := (tokenURIs w)(tid := uri)\<rparr>"
  using assms
  by (auto simp: nft_mint_body_def Let_def setTokenURI_def split: all_splits dest!: safeMint_Return)

lemma nft_mintTo_body_Return:
  assumes "nft_mintTo_body m dst uri w = (w', Return tid)"
  shows "tid = tokenIdCounter w \<and> owners w tid = 0 \<and> dst \<noteq> 0 \<and>
         w' = w\<lparr>tokenIdCounter := tokenIdCounter w + 1,
                owners := (owners w)(tid := dst),
                tokenApprovals := (tokenApprovals w)(tid := 0),
                tokenURIs := (tokenURIs w)(tid := uri)\<rparr>"
  using assms
  by (auto simp: nft_mintTo_body_def Let_def setTokenURI_def split: all_splits dest!: safeMint_Return)


lemma inv_nft_mint:
  assumes "index_inv w" and "nft_mint m uri w = (w', Return tid)"
  shows "index_inv w'"
proof -
  from nft_nonReentrant_Return [OF assms(2) [unfolded nft_mint_def]] obtain w1
    where b: "nft_mint_body m uri (w\<lparr>nft_entered := True\<rparr>) = (w1, Return tid)"
      and w': "w' = w1\<lparr>nft_entered := False\<rparr>"
    by blast
  have i: "index_inv (w\<lparr>nft_entered := True\<rparr>)" using assms(1) by simp
  from nft_mint_body_Return [OF b] inv_fresh_token [OF i]
  have "index_inv w1" by auto
  then show ?thesis by (simp add: w')
qed

lemma nft_mintTo_Return:
  assumes "nft_mintTo m dst uri w = (w', Return tid)"
  shows "tid = tokenIdCounter w \<and> owners w tid = 0 \<and>
         w' = w\<lparr>tokenIdCounter := tokenIdCounter w + 1,
                owners := (owners w)(tid := dst),
                tokenApprovals := (tokenApprovals w)(tid := 0),
                tokenURIs := (tokenURIs w)(tid := uri)\<rparr>"
proof -
  from nft_nonReentrant_Return [OF assms [unfolded nft_mintTo_def]] obtain w1
    where ne: "\<not> nft_entered w"
      and b: "nft_mintTo_body m dst uri (w\<lparr>nft_entered := True\<rparr>) = (w1, Return tid)"
      and w': "w' = w1\<lparr>nft_entered := False\<rparr>"
    by blast
  from nft_mintTo_body_Return [OF b] ne show ?thesis
    by (auto simp: w')
qed

lemma inv_mintNFT: "index_inv w \<Longrightarrow> index_inv (fst (mintNFT m uri w))"
  unfolding mintNFT_def
  by (rule transaction_preserves, assumption)
     (erule (1) nonReentrant_preserves [rotated 2], erule (1) inv_nft_mint)

lemma inv_mintAndList_body:
  assumes "index_inv w" and "mintAndList_body m uri p w = (w', Return tid)"
  shows "index_inv w'"
proof -
  from assms(2) obtain w1 where
    mt: "nft_mintTo (from_marketplace m w) (sender m) uri w = (w1, Return tid)" and
    w': "w' = w1\<lparr>listings := (listings w1)(tid := \<lparr>seller = sender m, price = p, isActive = True\<rparr>),
                 listedTokenIndex := (listedTokenIndex w1)(tid := length (listedTokenIds w1)),
                 listedTokenIds := listedTokenIds w1 @ [tid],
                 hasBeenListed := (hasBeenListed w1)(tid := True)\<rparr>"
    by (auto simp: mintAndList_body_def split: all_splits)
  from nft_mintTo_Return [OF mt] assms(1) show ?thesis
    by (auto simp: w' index_inv_def intro: less_SucI)
qed

lemma inv_mintAndList: "index_inv w \<Longrightarrow> index_inv (fst (mintAndList m uri p w))"
  unfolding mintAndList_def
  by (rule transaction_preserves, assumption)
     (erule (1) nonReentrant_preserves [rotated 2], erule (1) inv_mintAndList_body)

lemma inv_listNFT_body:
  "index_inv w \<Longrightarrow> listNFT_body m t p w = (w', Return r) \<Longrightarrow> index_inv w'"
  by (auto simp: index_inv_def listNFT_body_def ownerOf_def getApproved_def Let_def split: all_splits)

lemma inv_listNFT: "index_inv w \<Longrightarrow> index_inv (fst (listNFT m t p w))"
  unfolding listNFT_def
  by (rule transaction_preserves, assumption)
     (erule (1) nonReentrant_preserves [rotated 2], erule (1) inv_listNFT_body)

lemma transferFrom_body_Return:
  "transferFrom_body c src dst t w = (w', Return r) \<Longrightarrow>
     owners w t \<noteq> 0 \<and> dst \<noteq> 0 \<and> owners w t = src
     \<and> w' = w\<lparr>owners := (owners w)(t := dst), tokenApprovals := (tokenApprovals w)(t := 0)\<rparr>"
  by (auto simp: transferFrom_body_def split: if_splits)

lemma inv_transfer:
  "index_inv w \<Longrightarrow> owners w t \<noteq> 0 \<Longrightarrow>
     index_inv (w\<lparr>owners := (owners w)(t := dst), tokenApprovals := ta\<rparr>)"
  by (auto simp: index_inv_def)

lemma inv_transferFrom_body:
  "index_inv w \<Longrightarrow> transferFrom_body c src dst t w = (w', Return r) \<Longrightarrow> index_inv w'"
  by (auto dest!: transferFrom_body_Return simp: inv_transfer)

lemma safeTransferFrom_body_Return:
  "safeTransferFrom_body c src dst t w = (w', Return r) \<Longrightarrow>
     transferFrom_body c src dst t w = (w', Return ()) \<and> nft_receiver w' dst"
  by (auto simp: safeTransferFrom_body_def split: all_splits)

lemma call_with_value_Some:
  "call_with_value src dst a w = Some w' \<Longrightarrow>
     a \<le> balances w src \<and> can_receive_ether w dst \<and> w' = move_ether src dst a w"
  by (auto simp: call_with_value_def split: if_splits)

lemma call_with_value_and_code_Some:
  "call_with_value_and_code src dst a w = Some w' \<Longrightarrow>
     \<exists>back. w' = move_ether dst src back (move_ether src dst a w)"
  by (auto simp: call_with_value_and_code_def Let_def split: option.splits if_splits
        dest!: call_with_value_Some)

lemma inv_move_ether [simp]: "index_inv (move_ether a b v w) = index_inv w"
  by (simp add: move_ether_def Let_def)

lemma inv_listing_inactive:
  "index_inv w \<Longrightarrow> index_inv (w\<lparr>listings := (listings w)(t := (listings w t)\<lparr>isActive := False\<rparr>)\<rparr>)"
  by (auto simp: index_inv_def)

lemma inv_listing_price:
  "index_inv w \<Longrightarrow> index_inv (w\<lparr>listings := (listings w)(t := (listings w t)\<lparr>price := p\<rparr>)\<rparr>)"
  by (auto simp: index_inv_def)

lemma buyNFT_body_Return:
  assumes "buyNFT_body m v t w = (w', Return r)"
  shows "isActive (listings w t) \<and> sender m \<noteq> seller (listings w t) \<and> v = price (listings w t)
       \<and> price (listings w t) * marketplaceFee w < UINT256_LIMIT
       \<and> price (listings w t) * marketplaceFee w div FEE_DENOMINATOR \<le> price (listings w t)
       \<and> (\<exists>w2. safeTransferFrom_body (marketplace_address w) (seller (listings w t)) (sender m) t
                 (w\<lparr>listings := (listings w)(t := (listings w t)\<lparr>isActive := False\<rparr>)\<rparr>) = (w2, Return ())
              \<and> call_with_value (marketplace_address w2) (seller (listings w t))
                   (price (listings w t) - price (listings w t) * marketplaceFee w div FEE_DENOMINATOR) w2
                 = Some w')"
  using assms
  by (auto simp: buyNFT_body_def Let_def split: all_splits)

lemma inv_buyNFT_body:
  assumes "index_inv w" and "buyNFT_body m v t w = (w', Return r)"
  shows "index_inv w'"
proof -
  from buyNFT_body_Return [OF assms(2)] obtain w2 where
    st: "safeTransferFrom_body (marketplace_address w) (seller (listings w t)) (sender m) t
           (w\<lparr>listings := (listings w)(t := (listings w t)\<lparr>isActive := False\<rparr>)\<rparr>) = (w2, Return ())"
    and cv: "call_with_value (marketplace_address w2) (seller (listings w t))
               (price (listings w t) - price (listings w t) * marketplaceFee w div FEE_DENOMINATOR) w2 = Some w'"
    by blast
  have "index_inv w2"
    using safeTransferFrom_body_Return [OF st] inv_listing_inactive [OF assms(1)]
    by (blast intro: inv_transferFrom_body)
  with call_with_value_Some [OF cv] show ?thesis by simp
qed

lemma inv_buyNFT: "index_inv w \<Longrightarrow> index_inv (fst (buyNFT m v t w))"
  unfolding buyNFT_def payable_transaction_def
  apply (simp split: if_splits)
  apply (intro impI)
  apply (rule transaction_preserves, assumption)
  apply (erule nonReentrant_preserves [rotated 2])
   apply simp
  apply (erule (1) inv_buyNFT_body)
  done

lemma inv_delistNFT: "index_inv w \<Longrightarrow> index_inv (fst (delistNFT m t w))"
  unfolding delistNFT_def
  by (rule transaction_preserves, assumption)
     (erule (1) nonReentrant_preserves [rotated 2],
      auto simp: delistNFT_body_def Let_def inv_listing_inactive split: if_splits)

lemma inv_updateListingPrice: "index_inv w \<Longrightarrow> index_inv (fst (updateListingPrice m t p w))"
  unfolding updateListingPrice_def
  by (rule transaction_preserves, assumption)
     (erule (1) nonReentrant_preserves [rotated 2],
      auto simp: updateListingPrice_body_def Let_def inv_listing_price split: if_splits)

lemma inv_setMarketplaceFee: "index_inv w \<Longrightarrow> index_inv (fst (setMarketplaceFee m f w))"
  unfolding setMarketplaceFee_def
  by (rule transaction_preserves, assumption)
     (auto simp: onlyOwner_def index_inv_def split: if_splits)

lemma inv_withdrawFees: "index_inv w \<Longrightarrow> index_inv (fst (withdrawFees m dst w))"
  unfolding withdrawFees_def
  apply (rule transaction_preserves, assumption)
  apply (simp add: onlyOwner_def split: if_splits)
  apply (erule (1) nonReentrant_preserves [rotated 2])
  apply (auto simp: withdrawFees_body_def Let_def split: all_splits
           dest!: call_with_value_and_code_Some)
  done

lemma inv_approve: "index_inv w \<Longrightarrow> index_inv (fst (approve m a t w))"
  unfolding approve_def
  by (rule transaction_preserves, assumption)
     (auto simp: approve_body_def index_inv_def split: if_splits)

lemma inv_setApprovalForAll: "index_inv w \<Longrightarrow> index_inv (fst (setApprovalForAll m a b w))"
  unfolding setApprovalForAll_def
  by (rule transaction_preserves, assumption) (auto simp: index_inv_def)

lemma inv_transferFrom: "index_inv w \<Longrightarrow> index_inv (fst (transferFrom m src dst t w))"
  unfolding transferFrom_def
  by (rule transaction_preserves, assumption) (erule (1) inv_transferFrom_body)

lemma inv_exec_call: "index_inv w \<Longrightarrow> index_inv (exec_call w c)"
  by (cases c) (simp_all add: inv_mintNFT inv_mintAndList inv_listNFT inv_buyNFT inv_delistNFT
      inv_updateListingPrice inv_setMarketplaceFee inv_withdrawFees inv_approve inv_setApprovalForAll
      inv_transferFrom)

lemma inv_run: "index_inv w \<Longrightarrow> index_inv (run w cs)"
  unfolding run_def by (induction cs arbitrary: w) (simp_all add: inv_exec_call)


text \<open>The index only grows at its end.\<close>

lemma grows_refl: "\<exists>ys. listedTokenIds w = listedTokenIds w @ ys"
  by simp

lemma grows_transaction:
  assumes "\<And>w' r. body w = (w', Return r) \<Longrightarrow> \<exists>ys. listedTokenIds w' = listedTokenIds w @ ys"
  shows "\<exists>ys. listedTokenIds (fst (transaction body w)) = listedTokenIds w @ ys"
  using assms transaction_cases [of body w] by auto

lemma grows_nonReentrant:
  assumes "nonReentrant body w = (w', Return r)"
    and "\<And>w0 w1. body w0 = (w1, Return r) \<Longrightarrow> \<exists>ys. listedTokenIds w1 = listedTokenIds w0 @ ys"
  shows "\<exists>ys. listedTokenIds w' = listedTokenIds w @ ys"
proof -
  from nonReentrant_Return [OF assms(1)] obtain w1
    where b: "body (w\<lparr>mp_entered := True\<rparr>) = (w1, Return r)" and w': "w' = w1\<lparr>mp_entered := False\<rparr>"
    by blast
  from assms(2) [OF b] show ?thesis by (simp add: w')
qed

lemma grows_nft_mint:
  "nft_mint m uri w = (w', Return tid) \<Longrightarrow> listedTokenIds w' = listedTokenIds w"
  by (auto simp: nft_mint_def dest!: nft_nonReentrant_Return nft_mint_body_Return)

lemma grows_mintAndList_body:
  "mintAndList_body m uri p w = (w', Return tid) \<Longrightarrow> \<exists>ys. listedTokenIds w' = listedTokenIds w @ ys"
  by (auto simp: mintAndList_body_def split: all_splits dest!: nft_mintTo_Return)

lemma grows_listNFT_body:
  "listNFT_body m t p w = (w', Return r) \<Longrightarrow> \<exists>ys. listedTokenIds w' = listedTokenIds w @ ys"
  by (auto simp: listNFT_body_def ownerOf_def getApproved_def Let_def split: all_splits)

lemma listedTokenIds_move_ether [simp]:
  "listedTokenIds (move_ether a b v w) = listedTokenIds w"
  by (simp add: move_ether_def Let_def)

lemma grows_buyNFT_body:
  "buyNFT_body m v t w = (w', Return r) \<Longrightarrow> \<exists>ys. listedTokenIds w' = listedTokenIds w @ ys"
  by (auto dest!: buyNFT_body_Return safeTransferFrom_body_Return transferFrom_body_Return
        call_with_value_Some simp: move_ether_def Let_def)

lemma grows_exec_call: "\<exists>ys. listedTokenIds (exec_call w c) = listedTokenIds w @ ys"
proof (cases c)
  case (MintNFT m uri)
  show ?thesis unfolding MintNFT exec_call.simps mintNFT_def
    by (rule grows_transaction, erule grows_nonReentrant) (simp add: grows_nft_mint)
next
  case (MintAndList m uri p)
  show ?thesis unfolding MintAndList exec_call.simps mintAndList_def
    by (rule grows_transaction, erule grows_nonReentrant) (erule grows_mintAndList_body)
next
  case (ListNFT m t p)
  show ?thesis unfolding ListNFT exec_call.simps listNFT_def
    by (rule grows_transaction, erule grows_nonReentrant) (erule grows_listNFT_body)
next
  case (BuyNFT m v t)
  have "\<exists>ys. listedTokenIds w' = listedTokenIds w @ ys"
    if "nonReentrant (buyNFT_body m v t) (move_ether (sender m) (marketplace_address w) v w) = (w', Return r)"
    for w' r
    using grows_nonReentrant [OF that grows_buyNFT_body] by simp
  then show ?thesis unfolding BuyNFT exec_call.simps buyNFT_def payable_transaction_def
    by (auto intro!: grows_transaction)
next
  case (DelistNFT m t)
  show ?thesis unfolding DelistNFT exec_call.simps delistNFT_def
    by (rule grows_transaction, erule grows_nonReentrant)
       (auto simp: delistNFT_body_def Let_def split: if_splits)
next
  case (UpdateListingPrice m t p)
  show ?thesis unfolding UpdateListingPrice exec_call.simps updateListingPrice_def
    by (rule grows_transaction, erule grows_nonReentrant)
       (auto simp: updateListingPrice_body_def Let_def split: if_splits)
next
  case (SetMarketplaceFee m f)
  show ?thesis unfolding SetMarketplaceFee exec_call.simps setMarketplaceFee_def
    by (rule grows_transaction) (auto simp: onlyOwner_def split: if_splits)
next
  case (WithdrawFees m dst)
  show ?thesis unfolding WithdrawFees exec_call.simps withdrawFees_def
    by (rule grows_transaction)
       (auto simp: onlyOwner_def withdrawFees_body_def Let_def
          split: all_splits elim!: grows_nonReentrant dest!: call_with_value_and_code_Some)
next
  case (Approve m a t)
  show ?thesis unfolding Approve exec_call.simps approve_def
    by (rule grows_transaction) (auto simp: approve_body_def split: if_splits)
next
  case (SetApprovalForAll m a b)
  show ?thesis unfolding SetApprovalForAll exec_call.simps setApprovalForAll_def
    by (rule grows_transaction) auto
next
  case (TransferFrom m src dst t)
  show ?thesis unfolding TransferFrom exec_call.simps transferFrom_def
    by (rule grows_transaction) (auto dest!: transferFrom_body_Return)
qed

lemma grows_run: "\<exists>ys. listedTokenIds (run w cs) = listedTokenIds w @ ys"
  unfolding run_def
proof (induction cs arbitrary: w)
  case Nil
  show ?case by simp
next
  case (Cons c cs)
  from Cons [of "exec_call w c"] grows_exec_call [of w c] show ?case by auto
qed

lemma run_append: "run w (cs1 @ cs2) = run (run w cs1) cs2"
  by (simp add: run_def)

lemma distinct_count_list:
  "distinct xs \<Longrightarrow> x \<in> set xs \<Longrightarrow> count_list xs x = 1"
  by (induction xs) auto

text \<open>
  Claim C5. Start from the freshly deployed marketplace and run any sequence of calls
  (\<open>mintAndList\<close>, \<open>listNFT\<close> and every other modelled call of the marketplace and
  of the token registry, by any callers): a token whose listing is active after some
  prefix of the sequence occurs exactly once in \<open>listedTokenIds\<close> at the end of the
  sequence. Listing a token again does not append a second entry.
\<close>

theorem listing_index_exactly_once:
  assumes "isActive (listings (run (constructor d env) cs1) t)"
  shows "count_list (listedTokenIds (run (constructor d env) (cs1 @ cs2))) t = 1"
proof -
  let ?w1 = "run (constructor d env) cs1"
  let ?w2 = "run (constructor d env) (cs1 @ cs2)"
  have i1: "index_inv ?w1" by (rule inv_run [OF inv_constructor])
  have i2: "index_inv ?w2" by (rule inv_run [OF inv_constructor])
  from i1 assms have "t \<in> set (listedTokenIds ?w1)" by (auto simp: index_inv_def)
  moreover from grows_run [of ?w1 cs2] obtain ys
    where "listedTokenIds ?w2 = listedTokenIds ?w1 @ ys" by (auto simp: run_append)
  ultimately have "t \<in> set (listedTokenIds ?w2)" by simp
  moreover from i2 have "distinct (listedTokenIds ?w2)" by (simp add: index_inv_def)
  ultimately show ?thesis by (simp add: distinct_count_list)
qed

text \<open>
  The witness: token 0 is minted and listed, delisted, and listed again by its owner; the
  index holds it once.
\<close>

theorem listing_index_exactly_once_witness:
  "isActive (listings (run genesis (take 2 relist_calls)) 0)
   \<and> \<not> isActive (listings (run genesis (take 3 relist_calls)) 0)
   \<and> isActive (listings (run genesis relist_calls) 0)
   \<and> listedTokenIds (run genesis relist_calls) = [0]
   \<and> count_list (listedTokenIds (run genesis relist_calls)) 0 = 1"
proof -
  have a: "isActive (listings (run (constructor 1 env0) (take 2 relist_calls)) 0)"
    by (simp add: relist_calls_def ev)
  have e: "take 2 relist_calls @ drop 2 relist_calls = relist_calls" by simp
  from listing_index_exactly_once [OF a, of "drop 2 relist_calls"] a show ?thesis
    unfolding e by (simp add: relist_calls_def ev)
qed

subsection \<open>Enumeration\<close>

lemma count_loop_eq:
  "count_loop w i c = c + length (filter (\<lambda>t. isActive (listings w t)) (drop i (listedTokenIds w)))"
proof (induction w i c rule: count_loop.induct)
  case (1 w i c)
  show ?case
  proof (cases "i < length (listedTokenIds w)")
    case True
    then have d: "drop i (listedTokenIds w) = listedTokenIds w ! i # drop (Suc i) (listedTokenIds w)"
      by (simp add: Cons_nth_drop_Suc)
    from True "1.IH" show ?thesis
      by (simp add: count_loop.simps [of w i c] d)
  next
    case False
    then show ?thesis by (simp add: count_loop.simps [of w i c])
  qed
qed

lemma count_loop_active: "count_loop w 0 0 = length (active_ids w)"
  by (simp add: count_loop_eq active_ids_def)

lemma populate_loop_eq:
  assumes "k \<le> n" and "length A = n" and "length B = n" and "length C = n"
  shows "populate_loop w s n i c k (A, B, C) =
     (let xs = take (n - k) (drop (s - c) (filter (\<lambda>t. isActive (listings w t)) (drop i (listedTokenIds w))))
      in (take k A @ xs @ drop (k + length xs) A,
          take k B @ map (\<lambda>t. seller (listings w t)) xs @ drop (k + length xs) B,
          take k C @ map (\<lambda>t. price (listings w t)) xs @ drop (k + length xs) C))"
  using assms
proof (induction w s n i c k "(A, B, C)" arbitrary: A B C rule: populate_loop.induct)
  case (1 w s n i c k)
  let ?ids = "listedTokenIds w"
  let ?act = "\<lambda>t. isActive (listings w t)"
  show ?case
  proof (cases "i < length ?ids \<and> k < n")
    case False
    then have "n - k = 0 \<or> drop i ?ids = []" by auto
    then show ?thesis using False "1.prems"
      by (auto simp: populate_loop.simps [of w s n i c k "(A, B, C)"])
  next
    case True
    then have d: "drop i ?ids = ?ids ! i # drop (Suc i) ?ids"
      by (simp add: Cons_nth_drop_Suc)
    let ?t = "?ids ! i"
    show ?thesis
    proof (cases "?act ?t")
      case inactive: False
      have "populate_loop w s n i c k (A, B, C) = populate_loop w s n (i + 1) c k (A, B, C)"
        using True inactive by (simp add: populate_loop.simps [of w s n i c k "(A, B, C)"] Let_def)
      also have "\<dots> = (let xs = take (n - k) (drop (s - c) (filter ?act (drop (i + 1) ?ids)))
      in (take k A @ xs @ drop (k + length xs) A,
          take k B @ map (\<lambda>t. seller (listings w t)) xs @ drop (k + length xs) B,
          take k C @ map (\<lambda>t. price (listings w t)) xs @ drop (k + length xs) C))"
        using True inactive "1.prems" by (intro "1.hyps"(3)) auto
      finally show ?thesis using inactive by (simp add: d)
    next
      case active: True
      show ?thesis
      proof (cases "s \<le> c")
        case False
        have "populate_loop w s n i c k (A, B, C) = populate_loop w s n (i + 1) (c + 1) k (A, B, C)"
          using True active False by (simp add: populate_loop.simps [of w s n i c k "(A, B, C)"] Let_def)
        also have "\<dots> = (let xs = take (n - k) (drop (s - (c + 1)) (filter ?act (drop (i + 1) ?ids)))
      in (take k A @ xs @ drop (k + length xs) A,
          take k B @ map (\<lambda>t. seller (listings w t)) xs @ drop (k + length xs) B,
          take k C @ map (\<lambda>t. price (listings w t)) xs @ drop (k + length xs) C))"
          using True active False "1.prems" by (intro "1.hyps"(2)) auto
        finally show ?thesis using active False by (simp add: d drop_Cons')
      next
        case reached: True
        let ?A = "A[k := ?t]" and ?B = "B[k := seller (listings w ?t)]" and ?C = "C[k := price (listings w ?t)]"
        have "populate_loop w s n i c k (A, B, C) = populate_loop w s n (i + 1) (c + 1) (k + 1) (?A, ?B, ?C)"
          using True active reached by (simp add: populate_loop.simps [of w s n i c k "(A, B, C)"] Let_def)
        also have "\<dots> = (let xs = take (n - (k + 1)) (drop (s - (c + 1)) (filter ?act (drop (i + 1) ?ids)))
      in (take (k + 1) ?A @ xs @ drop (k + 1 + length xs) ?A,
          take (k + 1) ?B @ map (\<lambda>t. seller (listings w t)) xs @ drop (k + 1 + length xs) ?B,
          take (k + 1) ?C @ map (\<lambda>t. price (listings w t)) xs @ drop (k + 1 + length xs) ?C))"
          using True active reached "1.prems" by (intro "1.hyps"(1)) auto
        finally show ?thesis using active reached True "1.prems"
          by (simp add: d Let_def take_Suc_conv_app_nth Suc_diff_le take_Cons')
      qed
    qed
  qed
qed

lemma take_window:
  "take (min (s + l) (length xs) - s) (drop s xs) = take l (drop s xs)"
proof (cases "s + l \<le> length xs")
  case True
  then show ?thesis by (simp add: min_def)
next
  case False
  then have "length (drop s xs) \<le> l" by simp
  then show ?thesis using False by (simp add: min_def)
qed

lemma getActiveListings_eq:
  assumes "offset + limit < UINT256_LIMIT"
  shows "getActiveListings offset limit w = Return (page_of w (take limit (drop offset (active_ids w))))"
proof -
  let ?act = "active_ids w"
  define n where "n = min (offset + limit) (length ?act) - offset"
  have size: "(let activeCount = length ?act;
                   endIndex = (if activeCount < offset + limit then activeCount else offset + limit)
               in if offset < endIndex then endIndex - offset else 0) = n"
    by (auto simp: n_def Let_def min_def)
  have win: "take n (drop offset ?act) = take limit (drop offset ?act)"
    unfolding n_def by (rule take_window)
  have len: "length (take limit (drop offset ?act)) = n"
    by (auto simp: n_def min_def)
  have "populate_loop w offset n 0 0 0 (replicate n 0, replicate n 0, replicate n 0)
        = page_of w (take limit (drop offset ?act))"
    using len by (simp add: populate_loop_eq Let_def win page_of_def active_ids_def [symmetric])
  with assms size show ?thesis
    by (simp add: getActiveListings_def count_loop_active Let_def)
qed

lemma six_listed_facts:
  "listedTokenIds six_listed = [0, 1, 2, 3, 4, 5]"
  "active_ids six_listed = [0, 2, 3, 4, 5]"
  "page_of six_listed [3, 4] = ([3, 4], [3, 2], [40, 50])"
  "page_of six_listed [0, 2, 3, 4, 5] = ([0, 2, 3, 4, 5], [2, 2, 3, 2, 3], [10, 30, 40, 50, 60])"
  "page_of six_listed [] = ([], [], [])"
  by (simp_all add: six_listed_def active_ids_def page_of_def ev)

lemma getActiveListingCount_active: "getActiveListingCount w = length (active_ids w)"
  by (simp add: getActiveListingCount_def count_loop_active)

lemma getActiveListings_all:
  assumes "length (active_ids w) \<le> n" and "n < UINT256_LIMIT"
  shows "getActiveListings 0 n w = Return (page_of w (active_ids w))"
proof -
  have "0 + n < UINT256_LIMIT" using assms by simp
  from getActiveListings_eq [OF this, of w] assms(1) show ?thesis by simp
qed

lemma getActiveListings_overflow:
  "\<not> offset + limit < UINT256_LIMIT \<Longrightarrow> getActiveListings offset limit w = Revert Panic"
  by (simp add: getActiveListings_def Let_def)

text \<open>
  Claim C6. What \<open>getActiveListings offset limit\<close> computes. When \<open>offset + limit\<close> fits
  in 256 bits the claim holds: the result is exactly the active listings in the insertion
  order of the listing index, without the first \<open>offset\<close> of them and at most \<open>limit\<close>
  of them, with their sellers and prices; it is empty when \<open>offset\<close> is at least the
  number of active listings or \<open>limit\<close> is 0; with five active listings,
  \<open>getActiveListings 2 2\<close> returns the third and the fourth. When the sum does not fit,
  the checked addition \<^verbatim>\<open>_offset + _limit\<close> reverts before the end of the window is cut
  down to the number of active listings: there the code departs from the claim.
\<close>

theorem getActiveListings_window:
  "(offset + limit < UINT256_LIMIT \<longrightarrow>
       getActiveListings offset limit w
         = Return (page_of w (take limit (drop offset (active_ids w))))
     \<and> (length (active_ids w) \<le> offset \<or> limit = 0
          \<longrightarrow> getActiveListings offset limit w = Return ([], [], [])))
   \<and> (length (active_ids w) = 5
        \<longrightarrow> getActiveListings 2 2 w = Return (page_of w [active_ids w ! 2, active_ids w ! 3]))
   \<and> (\<not> offset + limit < UINT256_LIMIT \<longrightarrow> getActiveListings offset limit w = Revert Panic)"
proof (intro conjI impI)
  assume fits: "offset + limit < UINT256_LIMIT"
  show g: "getActiveListings offset limit w
         = Return (page_of w (take limit (drop offset (active_ids w))))"
    by (rule getActiveListings_eq [OF fits])
  show "getActiveListings offset limit w = Return ([], [], [])"
    if "length (active_ids w) \<le> offset \<or> limit = 0"
    using that g by (auto simp: page_of_def)
next
  assume five: "length (active_ids w) = 5"
  have "drop 2 (active_ids w) = active_ids w ! 2 # active_ids w ! 3 # drop 4 (active_ids w)"
    using five by (simp add: Cons_nth_drop_Suc [symmetric] numeral_eq_Suc)
  then have "take 2 (drop 2 (active_ids w)) = [active_ids w ! 2, active_ids w ! 3]"
    by simp
  moreover have "getActiveListings 2 2 w = Return (page_of w (take 2 (drop 2 (active_ids w))))"
    by (rule getActiveListings_eq) (simp add: UINT256_LIMIT_def)
  ultimately show "getActiveListings 2 2 w = Return (page_of w [active_ids w ! 2, active_ids w ! 3])"
    by simp
next
  assume "\<not> offset + limit < UINT256_LIMIT"
  then show "getActiveListings offset limit w = Revert Panic"
    by (rule getActiveListings_overflow)
qed

text \<open>
  The witness: six listings of which the second was delisted. The page \<open>(2, 2)\<close> holds
  tokens 3 and 4, the third and fourth of the five active ones. The offset
  \<open>2 ^ 256 - 1\<close> is at least the number of active listings, and with limit 1 the call
  reverts instead of returning empty arrays; with offset 1 and the largest limit the
  call reverts instead of returning the four active listings after the first.
\<close>

theorem getActiveListings_window_witness:
  "active_ids six_listed = [0, 2, 3, 4, 5]
   \<and> getActiveListings 2 2 six_listed = Return ([3, 4], [3, 2], [40, 50])
   \<and> getActiveListings 5 2 six_listed = Return ([], [], [])
   \<and> getActiveListings 1 0 six_listed = Return ([], [], [])
   \<and> 2 ^ 256 - 1 < UINT256_LIMIT
   \<and> length (active_ids six_listed) \<le> 2 ^ 256 - 1
   \<and> getActiveListings (2 ^ 256 - 1) 1 six_listed = Revert Panic
   \<and> take (2 ^ 256 - 1) (drop 1 (active_ids six_listed)) = [2, 3, 4, 5]
   \<and> getActiveListings 1 (2 ^ 256 - 1) six_listed = Revert Panic"
proof -
  have b: "(2::nat) + 2 < UINT256_LIMIT" "(5::nat) + 2 < UINT256_LIMIT"
    "(1::nat) + 0 < UINT256_LIMIT" "(2::nat) ^ 256 - 1 < UINT256_LIMIT"
    and o: "\<not> (2::nat) ^ 256 - 1 + 1 < UINT256_LIMIT" "\<not> 1 + ((2::nat) ^ 256 - 1) < UINT256_LIMIT"
    by (simp_all add: UINT256_LIMIT_def)
  have 1: "getActiveListings 2 2 six_listed = Return ([3, 4], [3, 2], [40, 50])"
    using getActiveListings_window [of 2 2 six_listed, THEN conjunct1] b
    by (simp add: six_listed_facts)
  have 2: "getActiveListings 5 2 six_listed = Return ([], [], [])"
    using getActiveListings_window [of 5 2 six_listed, THEN conjunct1] b
    by (simp add: six_listed_facts)
  have 3: "getActiveListings 1 0 six_listed = Return ([], [], [])"
    using getActiveListings_window [of 1 0 six_listed, THEN conjunct1] b
    by (simp add: six_listed_facts)
  have 4: "getActiveListings (2 ^ 256 - 1) 1 six_listed = Revert Panic"
    using getActiveListings_window [of "2 ^ 256 - 1" 1 six_listed, THEN conjunct2, THEN conjunct2] o
    by simp
  have 5: "getActiveListings 1 (2 ^ 256 - 1) six_listed = Revert Panic"
    using getActiveListings_window [of 1 "2 ^ 256 - 1" six_listed, THEN conjunct2, THEN conjunct2] o
    by simp
  from 1 2 3 4 5 b show ?thesis by (simp add: six_listed_facts)
qed

text \<open>
  Claim C10. In every state (so in every reachable one) \<open>getActiveListingCount\<close> is the
  number of entries of the listing index whose listing is active, and for every \<open>n\<close> of
  type \<open>uint256\<close> that is at least that count, the three arrays that
  \<open>getActiveListings 0 n\<close> returns all have that length.
\<close>

theorem active_count_agrees:
  "getActiveListingCount w = length (active_ids w)
   \<and> (getActiveListingCount w \<le> n \<and> n < UINT256_LIMIT \<longrightarrow>
        (case getActiveListings 0 n w of
           Return (tokenIds, sellers, prices) \<Rightarrow>
             length tokenIds = getActiveListingCount w
             \<and> length sellers = getActiveListingCount w
             \<and> length prices = getActiveListingCount w
         | Revert e \<Rightarrow> False))"
proof (intro conjI impI)
  show "getActiveListingCount w = length (active_ids w)"
    by (rule getActiveListingCount_active)
next
  assume "getActiveListingCount w \<le> n \<and> n < UINT256_LIMIT"
  then have "length (active_ids w) \<le> n" and "n < UINT256_LIMIT"
    by (simp_all add: getActiveListingCount_active)
  then have "getActiveListings 0 n w = Return (page_of w (active_ids w))"
    by (rule getActiveListings_all)
  then show "case getActiveListings 0 n w of
           Return (tokenIds, sellers, prices) \<Rightarrow>
             length tokenIds = getActiveListingCount w
             \<and> length sellers = getActiveListingCount w
             \<and> length prices = getActiveListingCount w
         | Revert e \<Rightarrow> False"
    by (simp add: page_of_def getActiveListingCount_active)
qed

theorem active_count_agrees_witness:
  "getActiveListingCount six_listed = 5
   \<and> 5 < UINT256_LIMIT
   \<and> getActiveListings 0 5 six_listed
       = Return ([0, 2, 3, 4, 5], [2, 2, 3, 2, 3], [10, 30, 40, 50, 60])
   \<and> length [0, 2, 3, 4, 5 :: nat] = getActiveListingCount six_listed"
proof -
  have b: "(5::nat) < UINT256_LIMIT" by (simp add: UINT256_LIMIT_def)
  have c: "getActiveListingCount six_listed = 5"
    using active_count_agrees [of six_listed 5, THEN conjunct1] by (simp add: six_listed_facts)
  then have h: "getActiveListingCount six_listed \<le> 5 \<and> 5 < UINT256_LIMIT"
    using b by simp
  have l: "case getActiveListings 0 5 six_listed of
           Return (tokenIds, sellers, prices) \<Rightarrow>
             length tokenIds = getActiveListingCount six_listed
             \<and> length sellers = getActiveListingCount six_listed
             \<and> length prices = getActiveListingCount six_listed
         | Revert e \<Rightarrow> False"
    by (rule active_count_agrees [of six_listed 5, THEN conjunct2, rule_format, OF h])
  have g: "getActiveListings 0 5 six_listed = Return (page_of six_listed (active_ids six_listed))"
    by (rule getActiveListings_all) (simp_all add: six_listed_facts b)
  have g': "getActiveListings 0 5 six_listed
       = Return ([0, 2, 3, 4, 5], [2, 2, 3, 2, 3], [10, 30, 40, 50, 60])"
    unfolding g by (simp add: six_listed_facts)
  from l have "length [0, 2, 3, 4, 5 :: nat] = getActiveListingCount six_listed"
    unfolding g' by simp
  with b c g' show ?thesis by simp
qed


subsection \<open>Fees, sellers and minting\<close>

text \<open>
  Claim C7, as amended. \<open>withdrawFees\<close> reverts with \<open>OwnableUnauthorizedAccount\<close> (the
  specification's Unauthorized) unless the caller is the owner of the marketplace. For the
  owner, outside a guarded call: it reverts with \<open>TransferFailed\<close> when the ether balance
  of the marketplace is zero, and with the same \<open>TransferFailed\<close> when the recipient
  rejects the ether, the balance staying as it was. When the recipient accepts, the whole
  balance is sent to it, and the balance that the marketplace holds afterwards is exactly
  the ether that came back during the call: what the code of the recipient sent back, or
  the whole amount when the recipient is the marketplace itself. So when the recipient is
  another account and sends nothing back, the balance is exactly zero and a \<open>withdrawFees\<close>
  that follows immediately reverts with \<open>TransferFailed\<close>. The accrued fees are the ether
  balance of the contract; the contract has a single error for the specification's
  NothingToWithdraw and PayoutFailed.
\<close>

theorem withdrawFees_behaviour:
  "(mp_owner w \<noteq> sender m \<longrightarrow> withdrawFees m dst w = (w, Revert OwnableUnauthorizedAccount))
   \<and> (mp_owner w = sender m \<and> \<not> mp_entered w \<and> balances w (marketplace_address w) = 0
        \<longrightarrow> withdrawFees m dst w = (w, Revert TransferFailed))
   \<and> (mp_owner w = sender m \<and> \<not> mp_entered w \<and> \<not> can_receive_ether w dst
        \<longrightarrow> withdrawFees m dst w = (w, Revert TransferFailed))
   \<and> (mp_owner w = sender m \<and> \<not> mp_entered w \<and> 0 < balances w (marketplace_address w)
        \<and> can_receive_ether w dst \<and> dst \<noteq> marketplace_address w
        \<and> sends_back w dst \<le> balances w dst + balances w (marketplace_address w)
        \<longrightarrow> snd (withdrawFees m dst w) = Return ()
            \<and> balances (fst (withdrawFees m dst w)) dst
                = balances w dst + balances w (marketplace_address w) - sends_back w dst
            \<and> balances (fst (withdrawFees m dst w)) (marketplace_address w) = sends_back w dst
            \<and> (sends_back w dst = 0 \<longrightarrow>
                  balances (fst (withdrawFees m dst w)) (marketplace_address w) = 0
                \<and> withdrawFees m dst2 (fst (withdrawFees m dst w))
                    = (fst (withdrawFees m dst w), Revert TransferFailed)))
   \<and> (mp_owner w = sender m \<and> \<not> mp_entered w \<and> 0 < balances w (marketplace_address w)
        \<and> dst = marketplace_address w
        \<longrightarrow> snd (withdrawFees m dst w) = Return ()
            \<and> balances (fst (withdrawFees m dst w)) (marketplace_address w)
                = balances w (marketplace_address w))"
  by (auto simp: withdrawFees_def withdrawFees_body_def transaction_def onlyOwner_def
        nonReentrant_def call_with_value_and_code_def call_with_value_def move_ether_def
        can_receive_ether_def Let_def split: all_splits)

text \<open>
  The witness, in the world after the sale of token 0 (the marketplace holds 25 wei):
  a stranger is refused; before the sale the owner finds nothing to withdraw; account 4
  rejects the ether and the 25 wei stay; the owner withdraws to account 5, the balance is
  zero and the next withdrawal fails; the owner withdraws to account 6, which sends 10 wei
  back, and the marketplace holds 10 wei.
\<close>

theorem withdrawFees_behaviour_witness:
  "withdrawFees (user 3) 3 after_sale = (after_sale, Revert OwnableUnauthorizedAccount)
   \<and> withdrawFees (user 1) 5 alice_lists = (alice_lists, Revert TransferFailed)
   \<and> withdrawFees (user 1) 4 after_sale = (after_sale, Revert TransferFailed)
   \<and> balances after_sale 100 = 25
   \<and> snd (withdrawFees (user 1) 5 after_sale) = Return ()
   \<and> balances (fst (withdrawFees (user 1) 5 after_sale)) 5 = 5025
   \<and> balances (fst (withdrawFees (user 1) 5 after_sale)) 100 = 0
   \<and> withdrawFees (user 1) 5 (fst (withdrawFees (user 1) 5 after_sale))
       = (fst (withdrawFees (user 1) 5 after_sale), Revert TransferFailed)
   \<and> snd (withdrawFees (user 1) 6 after_sale) = Return ()
   \<and> balances (fst (withdrawFees (user 1) 6 after_sale)) 6 = 5015
   \<and> balances (fst (withdrawFees (user 1) 6 after_sale)) 100 = 10"
proof -
  have f: "mp_owner alice_lists = 1"
    "\<not> can_receive_ether after_sale 4" "can_receive_ether after_sale 5"
    "can_receive_ether after_sale 6" "sends_back after_sale 5 = 0" "sends_back after_sale 6 = 10"
    "balances after_sale 6 = 5000"
    by (simp_all add: after_sale_def alice_lists_def ev)
  from withdrawFees_behaviour [of after_sale "user 3" 3]
    withdrawFees_behaviour [of alice_lists "user 1" 5]
    withdrawFees_behaviour [of after_sale "user 1" 4]
    withdrawFees_behaviour [of after_sale "user 1" 5 5]
    withdrawFees_behaviour [of after_sale "user 1" 6]
  show ?thesis
    by (simp add: f after_sale_facts alice_lists_facts user_def)
qed

text \<open>
  The claim as stated fails for a recipient through which ether comes back: for the
  marketplace itself, which accepts ether, and for account 6, whose code sends 10 wei
  back. The withdrawal succeeds, the balance is not zero, and the withdrawal that follows
  succeeds again.
\<close>

theorem withdrawFees_balance_left_counterexample:
  "mp_owner after_sale = sender (user 1)
   \<and> snd (withdrawFees (user 1) 100 after_sale) = Return ()
   \<and> balances (fst (withdrawFees (user 1) 100 after_sale)) (marketplace_address after_sale) = 25
   \<and> snd (withdrawFees (user 1) 100 (fst (withdrawFees (user 1) 100 after_sale))) = Return ()
   \<and> snd (withdrawFees (user 1) 6 after_sale) = Return ()
   \<and> balances (fst (withdrawFees (user 1) 6 after_sale)) (marketplace_address after_sale) = 10
   \<and> snd (withdrawFees (user 1) 6 (fst (withdrawFees (user 1) 6 after_sale))) = Return ()"
  by (simp add: after_sale_def alice_lists_def ev)



text \<open>
  Claim C9. A successful \<open>mintNFT\<close> of the marketplace gives the new token, whose id is
  the counter of the NFT contract, to the originator of the transaction
  (\<^verbatim>\<open>tx.origin\<close>), whoever the immediate caller is: when the call is routed through
  another contract, the owner is the originating account and not that contract.
\<close>

theorem mintNFT_owner_is_origin:
  assumes "mintNFT m uri w = (w', Return tid)"
  shows "owners w' tid = origin m \<and> tid = tokenIdCounter w \<and> tokenURIs w' tid = uri
       \<and> (sender m \<noteq> origin m \<longrightarrow> owners w' tid \<noteq> sender m)"
  using assms
  by (auto simp: mintNFT_def transaction_def nonReentrant_def nft_mint_def nft_nonReentrant_def
        nft_mint_body_def safeMint_def setTokenURI_def from_marketplace_def Let_def
        split: all_splits)

text \<open>
  The witness: account 2 starts a transaction in which contract 50 calls \<open>mintNFT\<close>;
  token 0 belongs to account 2.
\<close>

theorem mintNFT_owner_is_origin_witness:
  "snd (mintNFT (relayed 2 50) ''ipfs://x'' genesis) = Return 0
   \<and> owners (fst (mintNFT (relayed 2 50) ''ipfs://x'' genesis)) 0 = 2
   \<and> owners (fst (mintNFT (relayed 2 50) ''ipfs://x'' genesis)) 0 \<noteq> 50"
proof -
  have r: "snd (mintNFT (relayed 2 50) ''ipfs://x'' genesis) = Return 0"
    by (simp add: relayed_def ev)
  then have "mintNFT (relayed 2 50) ''ipfs://x'' genesis
             = (fst (mintNFT (relayed 2 50) ''ipfs://x'' genesis), Return 0)"
    by (simp add: prod_eq_iff)
  from mintNFT_owner_is_origin [OF this] r show ?thesis
    by (simp add: relayed_def)
qed

end
